theory Spec2Isabelle
  imports Complex_Main
begin

section \<open>JavaScript values used by the services\<close>

text \<open>
  A JavaScript number is modelled as \<open>NaN\<close>, an infinity, or a finite value carried as
  a real. The operations below give the exact result on finite values: binary rounding,
  overflow to an infinity and the sign of zero are not part of them. The arithmetic of
  the strategy service rounds each result to a double (see \<open>binary64\<close> below); the
  simulation and the CSV service are modelled with the exact operations; the sign of
  zero is not modelled. The special values follow IEEE 754 as
  ECMAScript prescribes: every operation on \<open>NaN\<close> gives \<open>NaN\<close>, every comparison
  with \<open>NaN\<close> is false, \<open>Infinity - Infinity\<close>, \<open>0 * Infinity\<close>, \<open>0 / 0\<close> and
  \<open>Infinity / Infinity\<close> are \<open>NaN\<close>.
\<close>

datatype number = NaN | Fin real | PosInf | NegInf

fun nneg :: "number \<Rightarrow> number" where
  "nneg NaN = NaN"
| "nneg (Fin a) = Fin (- a)"
| "nneg PosInf = NegInf"
| "nneg NegInf = PosInf"

fun nadd :: "number \<Rightarrow> number \<Rightarrow> number" where
  "nadd NaN _ = NaN"
| "nadd _ NaN = NaN"
| "nadd (Fin a) (Fin b) = Fin (a + b)"
| "nadd (Fin a) PosInf = PosInf"
| "nadd (Fin a) NegInf = NegInf"
| "nadd PosInf NegInf = NaN"
| "nadd PosInf _ = PosInf"
| "nadd NegInf PosInf = NaN"
| "nadd NegInf _ = NegInf"

definition nsub :: "number \<Rightarrow> number \<Rightarrow> number" where
  "nsub a b = nadd a (nneg b)"

text \<open>The sign of a number that is not \<open>NaN\<close>: \<open>-1\<close>, \<open>0\<close> or \<open>1\<close>.\<close>

fun nsgn :: "number \<Rightarrow> int" where
  "nsgn NaN = 0"
| "nsgn (Fin a) = (if a < 0 then - 1 else if a = 0 then 0 else 1)"
| "nsgn PosInf = 1"
| "nsgn NegInf = - 1"

definition inf_of_sign :: "int \<Rightarrow> number" where
  "inf_of_sign s = (if s = 0 then NaN else if 0 < s then PosInf else NegInf)"

fun nmul :: "number \<Rightarrow> number \<Rightarrow> number" where
  "nmul NaN _ = NaN"
| "nmul _ NaN = NaN"
| "nmul (Fin a) (Fin b) = Fin (a * b)"
| "nmul a b = inf_of_sign (nsgn a * nsgn b)"

fun ndiv :: "number \<Rightarrow> number \<Rightarrow> number" where
  "ndiv NaN _ = NaN"
| "ndiv _ NaN = NaN"
| "ndiv (Fin a) (Fin b) = (if b = 0 then inf_of_sign (nsgn (Fin a)) else Fin (a / b))"
| "ndiv (Fin a) _ = Fin 0"
| "ndiv a (Fin b) = inf_of_sign (nsgn a * (if b < 0 then - 1 else 1))"
| "ndiv _ _ = NaN"

fun nlt :: "number \<Rightarrow> number \<Rightarrow> bool" where
  "nlt NaN _ = False"
| "nlt _ NaN = False"
| "nlt (Fin a) (Fin b) = (a < b)"
| "nlt (Fin a) PosInf = True"
| "nlt (Fin a) NegInf = False"
| "nlt PosInf _ = False"
| "nlt NegInf NegInf = False"
| "nlt NegInf _ = True"

definition ngt :: "number \<Rightarrow> number \<Rightarrow> bool" where
  "ngt a b = nlt b a"

text \<open>\<open>a >= b\<close>: false when either side is \<open>NaN\<close>, else \<open>b < a\<close> or equal.\<close>

fun nge :: "number \<Rightarrow> number \<Rightarrow> bool" where
  "nge NaN _ = False"
| "nge _ NaN = False"
| "nge a b = (nlt b a \<or> a = b)"

text \<open>\<open>Math.min\<close> of two numbers.\<close>

fun nmin :: "number \<Rightarrow> number \<Rightarrow> number" where
  "nmin NaN _ = NaN"
| "nmin _ NaN = NaN"
| "nmin a b = (if nlt b a then b else a)"

text \<open>Truthiness of a number: \<open>0\<close> and \<open>NaN\<close> are falsy.\<close>

fun truthy :: "number \<Rightarrow> bool" where
  "truthy NaN = False"
| "truthy (Fin a) = (a \<noteq> 0)"
| "truthy _ = True"

text \<open>
  \<open>x || d\<close> where \<open>x\<close> is a property that holds a number or is absent
  (\<open>undefined\<close>, here \<open>None\<close>).
\<close>

fun or_default :: "number option \<Rightarrow> number \<Rightarrow> number" where
  "or_default None d = d"
| "or_default (Some v) d = (if truthy v then v else d)"

text \<open>
  A property read \<open>obj[key]\<close> on an object literal finds an own property, or a member
  that every object inherits from \<open>Object.prototype\<close> (a function, or for
  \<open>__proto__\<close> the prototype object itself: all of them truthy, and none of them has
  one of the properties the services read next), or nothing (\<open>undefined\<close>).
  \<open>Builtin path\<close> stands for the value reached from \<open>Object.prototype\<close> along
  the property names of \<open>path\<close>; the model does not look into it.
\<close>

datatype 'a looked_up = Found 'a | Builtin "string list" | Undefined

definition Object_prototype_names :: "string list" where
  "Object_prototype_names =
    [''constructor'', ''hasOwnProperty'', ''isPrototypeOf'', ''propertyIsEnumerable'',
     ''toLocaleString'', ''toString'', ''valueOf'', ''__proto__'',
     ''__defineGetter__'', ''__defineSetter__'', ''__lookupGetter__'', ''__lookupSetter__'']"

definition get_property :: "(string \<times> 'a) list \<Rightarrow> string \<Rightarrow> 'a looked_up" where
  "get_property obj k =
    (case map_of obj k of
       Some v \<Rightarrow> Found v
     | None \<Rightarrow> if k \<in> set Object_prototype_names then Builtin [k] else Undefined)"

datatype error = TypeError

subsection \<open>Rounding to a double\<close>

text \<open>
  The finite numbers of JavaScript are the IEEE 754 binary64 values: zero, and
  \<open>m * 2^k\<close> for an integer \<open>m\<close> below \<open>2^53\<close> in magnitude and \<open>-1074 \<le> k \<le> 971\<close>.
  Each of \<open>+\<close>, \<open>-\<close>, \<open>*\<close> and \<open>/\<close> returns the exact result rounded to the nearest
  such value, a tie going to the even \<open>m\<close>, and an infinity when the rounded magnitude
  reaches \<open>2^1024\<close>; a decimal literal such as \<open>0.2\<close> denotes the double nearest to it.

  \<open>bit_length n\<close> is the number of binary digits of a positive integer, and
  \<open>binary_exponent a\<close>, for \<open>a > 0\<close>, the integer \<open>e\<close> with \<open>2^e \<le> a < 2^(e+1)\<close>.
\<close>

function bit_length :: "int \<Rightarrow> nat" where
  "bit_length n = (if n \<le> 0 then 0 else Suc (bit_length (n div 2)))"
  by pat_completeness auto
termination
  by (relation "measure nat") auto

declare bit_length.simps [simp del]

definition binary_exponent :: "real \<Rightarrow> int" where
  "binary_exponent a =
    (if 1 \<le> a then int (bit_length \<lfloor>a\<rfloor>) - 1
     else - int (bit_length (\<lceil>1 / a\<rceil> - 1)))"

text \<open>\<open>a * 2^k\<close> for an integer \<open>k\<close> of either sign.\<close>

definition scale2 :: "real \<Rightarrow> int \<Rightarrow> real" where
  "scale2 a k = (if 0 \<le> k then a * 2 ^ nat k else a / 2 ^ nat (- k))"

text \<open>The nearest integer, a tie going to the even one.\<close>

definition round_half_even :: "real \<Rightarrow> int" where
  "round_half_even a =
    (let f = \<lfloor>a\<rfloor>
     in if a - of_int f < 1 / 2 then f
        else if 1 / 2 < a - of_int f then f + 1
        else if even f then f else f + 1)"

text \<open>
  The double nearest to a real. The spacing of the doubles around \<open>x\<close> is \<open>2^(e - 52)\<close>,
  where \<open>e\<close> is the binary exponent of \<open>x\<close>, and \<open>-1022\<close> for the subnormal numbers below
  \<open>2^(-1022)\<close>.
\<close>

definition binary64 :: "real \<Rightarrow> number" where
  "binary64 x =
    (if x = 0 then Fin 0
     else let e = max (binary_exponent \<bar>x\<bar>) (- 1022);
              y = scale2 (of_int (round_half_even (scale2 x (52 - e)))) (e - 52)
          in if \<bar>y\<bar> < 2 ^ 1024 then Fin y else if 0 < x then PosInf else NegInf)"

text \<open>
  The operators of the strategy service: the exact result, rounded when it is finite.
  The integer literals of the service are doubles; \<open>literal\<close> is for the others.
\<close>

fun rounded :: "number \<Rightarrow> number" where
  "rounded (Fin a) = binary64 a"
| "rounded x = x"

definition fadd :: "number \<Rightarrow> number \<Rightarrow> number" where
  "fadd a b = rounded (nadd a b)"

definition fsub :: "number \<Rightarrow> number \<Rightarrow> number" where
  "fsub a b = rounded (nsub a b)"

definition fmul :: "number \<Rightarrow> number \<Rightarrow> number" where
  "fmul a b = rounded (nmul a b)"

definition fdiv :: "number \<Rightarrow> number \<Rightarrow> number" where
  "fdiv a b = rounded (ndiv a b)"

definition literal :: "real \<Rightarrow> number" where
  "literal a = binary64 a"

section \<open>services/strategyService.js\<close>

subsection \<open>getRiskAdjustedAllocation\<close>

record allocation_row =
  equity :: real
  bonds :: real
  alternatives :: real

definition allocations :: "string \<Rightarrow> (string \<times> allocation_row) list" where
  "allocations planningRegion =
    [(''low'', \<lparr>equity = (if planningRegion = ''us'' then 40 else 45),
               bonds = (if planningRegion = ''us'' then 50 else 45),
               alternatives = 10\<rparr>),
     (''medium'', \<lparr>equity = (if planningRegion = ''us'' then 60 else 55),
                  bonds = (if planningRegion = ''us'' then 30 else 35),
                  alternatives = 10\<rparr>),
     (''high'', \<lparr>equity = (if planningRegion = ''us'' then 80 else 75),
                bonds = (if planningRegion = ''us'' then 10 else 15),
                alternatives = 10\<rparr>)]"

text \<open>\<open>allocations[riskTolerance] || allocations.medium\<close>: an object or a function is truthy.\<close>

definition getRiskAdjustedAllocation :: "string \<Rightarrow> string \<Rightarrow> allocation_row looked_up" where
  "getRiskAdjustedAllocation planningRegion riskTolerance =
    (case get_property (allocations planningRegion) riskTolerance of
       Undefined \<Rightarrow> get_property (allocations planningRegion) ''medium''
     | v \<Rightarrow> v)"

subsection \<open>The base-strategy matrix of generateDetailedStrategies\<close>

record base_strategy =
  focus :: string
  bondAllocation :: real
  equityAllocation :: real
  altAllocation :: real
  equityStyle :: string
  bondStyle :: string
  altInvestments :: "string list"

definition baseStrategies :: "string \<Rightarrow> (string \<times> base_strategy) list" where
  "baseStrategies planningRegion =
    [(''low'', \<lparr>focus = ''capital preservation and modest growth'',
               bondAllocation = (if planningRegion = ''us'' then 60 else 50),
               equityAllocation = (if planningRegion = ''us'' then 30 else 40),
               altAllocation = 10,
               equityStyle = ''large-cap value and dividend stocks'',
               bondStyle = ''government and high-grade corporate bonds'',
               altInvestments = [''REITs'', ''Gold'']\<rparr>),
     (''medium'', \<lparr>focus = ''balanced growth with moderate risk'',
               bondAllocation = 40,
               equityAllocation = 50,
               altAllocation = 10,
               equityStyle = ''blend of growth and value stocks across market caps'',
               bondStyle = ''mix of government and corporate bonds'',
               altInvestments = [''REITs'', ''Gold'', ''Commodities'']\<rparr>),
     (''high'', \<lparr>focus = ''aggressive growth accepting higher volatility'',
               bondAllocation = 20,
               equityAllocation = 70,
               altAllocation = 10,
               equityStyle = ''growth-oriented stocks with small/mid-cap exposure'',
               bondStyle = ''corporate and emerging market bonds'',
               altInvestments = [''REITs'', ''Commodities'', ''Private Equity'']\<rparr>)]"


subsection \<open>The host: number formatting and the clock\<close>

text \<open>
  How a number prints (\<open>Number.prototype.toString\<close>, \<open>toFixed\<close>, and
  \<open>toLocaleString\<close>, which follows the locale of the process) and what the clock reads
  (\<open>new Date().toISOString()\<close>) belong to the JavaScript host, not to the services.
  They are taken as parameters.
\<close>

record host =
  number_toString :: "real \<Rightarrow> string"
  number_toFixed :: "real \<Rightarrow> nat \<Rightarrow> string"
  number_toLocaleString :: "number \<Rightarrow> string"
  clock_toISOString :: string

text \<open>
  A number inside a template literal. An integer below \<open>10^21\<close> in magnitude prints as
  its decimal digits; how the host prints any other finite number is left to it.
\<close>

definition digit_char :: "nat \<Rightarrow> char" where
  "digit_char d = ''0123456789'' ! d"

fun show_nat :: "nat \<Rightarrow> string" where
  "show_nat n = (if n < 10 then [digit_char n] else show_nat (n div 10) @ [digit_char (n mod 10)])"

definition show_int :: "int \<Rightarrow> string" where
  "show_int i = (if i < 0 then ''-'' @ show_nat (nat (- i)) else show_nat (nat i))"

fun to_str :: "host \<Rightarrow> number \<Rightarrow> string" where
  "to_str h NaN = ''NaN''"
| "to_str h (Fin a) =
    (if a = of_int \<lfloor>a\<rfloor> \<and> \<bar>a\<bar> < 10 ^ 21 then show_int \<lfloor>a\<rfloor> else number_toString h a)"
| "to_str h PosInf = ''Infinity''"
| "to_str h NegInf = ''-Infinity''"

fun to_fixed :: "host \<Rightarrow> number \<Rightarrow> nat \<Rightarrow> string" where
  "to_fixed h (Fin a) d = number_toFixed h a d"
| "to_fixed h x d = to_str h x"

text \<open>A host for the examples: fixed text for the numbers it is asked to print.\<close>

definition example_host :: host where
  "example_host =
    \<lparr>number_toString = (\<lambda>_. ''0.5''), number_toFixed = (\<lambda>_ _. ''50.0''),
     number_toLocaleString = (\<lambda>_. ''5,000''),
     clock_toISOString = ''2024-11-15T10:30:00.000Z''\<rparr>"

text \<open>A property that holds a number or is \<open>undefined\<close>, inside a template literal.\<close>

fun tmpl :: "host \<Rightarrow> number option \<Rightarrow> string" where
  "tmpl h None = ''undefined''"
| "tmpl h (Some x) = to_str h x"

text \<open>\<open>ToNumber\<close> of such a property: \<open>undefined\<close> becomes \<open>NaN\<close>.\<close>

fun to_number :: "number option \<Rightarrow> number" where
  "to_number None = NaN"
| "to_number (Some x) = x"

text \<open>
  Reading a text or a numeric property of a looked-up row: an inherited member has
  none of the properties read here, so the read gives \<open>undefined\<close>.
\<close>

fun text_prop :: "('a \<Rightarrow> string) \<Rightarrow> 'a looked_up \<Rightarrow> string" where
  "text_prop f (Found r) = f r"
| "text_prop f _ = ''undefined''"

fun num_prop :: "('a \<Rightarrow> real) \<Rightarrow> 'a looked_up \<Rightarrow> number option" where
  "num_prop f (Found r) = Some (Fin (f r))"
| "num_prop f _ = None"

text \<open>\<open>Math.round\<close>: the nearest integer, a tie going up.\<close>

fun Math_round :: "number \<Rightarrow> number" where
  "Math_round (Fin a) = Fin (of_int \<lfloor>a + 1 / 2\<rfloor>)"
| "Math_round x = x"

text \<open>
  \<open>toUpperCase\<close> on the letters a to z; other characters are left as they are
  (strings are byte strings here, a character outside ASCII standing as its UTF-8 bytes).
\<close>

definition upper_char :: "char \<Rightarrow> char" where
  "upper_char c =
    (case map_of (zip ''abcdefghijklmnopqrstuvwxyz'' ''ABCDEFGHIJKLMNOPQRSTUVWXYZ'') c of
       Some u \<Rightarrow> u
     | None \<Rightarrow> c)"

definition toUpperCase :: "string \<Rightarrow> string" where
  "toUpperCase s = map upper_char s"

definition rupee :: string where
  "rupee = [CHR 0xE2, CHR 0x82, CHR 0xB9]"

definition plus_minus :: string where
  "plus_minus = [CHR 0xC2, CHR 0xB1]"

subsection \<open>The user's goals and the analytics summary\<close>

text \<open>Each property holds a number or is absent.\<close>

record userGoals =
  currentAge :: "number option"
  retirementAge :: "number option"
  investmentHorizon :: "number option"
  monthlyIncome :: "number option"
  monthlyExpenses :: "number option"

record esopOverview =
  totalValue :: "number option"
  totalUnvestedShares :: "number option"
  totalVestedShares :: "number option"
  percentOfPortfolio :: "number option"

record riskFlags =
  highConcentration :: "bool option"

record analyticsSummary =
  esopOverview :: "esopOverview option"
  riskFlags :: "riskFlags option"

subsection \<open>generateDetailedEsopStrategy\<close>

record tax_row =
  incomeTax :: string
  capitalGains :: string
  surcharge :: "string \<times> string"  \<comment> \<open>\<open>niit\<close> for us, \<open>cess\<close> for india: never read\<close>
  strategy :: string

definition taxRates :: "(string \<times> tax_row) list" where
  "taxRates =
    [(''us'', \<lparr>
       incomeTax = ''Ordinary income tax rates apply at exercise (22-37% federal plus state taxes)'',
       capitalGains = ''Long-term capital gains tax (15-20%) applies for shares held >1 year after exercise'',
       surcharge = (''niit'', ''Additional 3.8% Net Investment Income Tax for higher income brackets''),
       strategy = ''Consider exercising options early if AMT exposure is low to start long-term capital gains clock''\<rparr>),
     (''india'', \<lparr>
       incomeTax = ''Perquisite tax applies at exercise (taxed as salary at your income tax slab rate)'',
       capitalGains = ''Long-term capital gains tax (10% above '' @ rupee @ ''1 lakh) for shares held >1 year; otherwise STCG at 15%'',
       surcharge = (''cess'', ''Health and Education Cess of 4% applies on the tax amount''),
       strategy = ''Consider exercising soon after grant if share price is low to minimize perquisite tax''\<rparr>)]"

record exerciseFundingStrategy =
  estimatedCost :: number
  monthlySavingsTarget :: number
  annualSellPercentage :: number
  taxRate :: number
  fundingSources :: "string list"

record actionStep =
  step :: string
  details :: string
  timeline :: string

record esopStrategy =
  overview :: string
  riskAssessment :: string
  liquidationPlan :: string
  taxPlanning :: string
  futureVestingStrategy :: string
  exerciseFundingStrategy :: exerciseFundingStrategy
  actionSteps :: "actionStep list"
  additionalRecommendations :: "string list"

text \<open>\<open>analyticsSummary?.esopOverview?.totalValue || 100000\<close>\<close>

definition esopValue_of :: "analyticsSummary \<Rightarrow> number" where
  "esopValue_of s =
    or_default (case esopOverview s of None \<Rightarrow> None | Some ov \<Rightarrow> totalValue ov) (Fin 100000)"

text \<open>\<open>analyticsSummary?.riskFlags?.highConcentration || false\<close>\<close>

definition concentrationRisk_of :: "analyticsSummary \<Rightarrow> bool" where
  "concentrationRisk_of s =
    (case riskFlags s of
       None \<Rightarrow> False
     | Some fl \<Rightarrow> (case highConcentration fl of None \<Rightarrow> False | Some b \<Rightarrow> b))"

definition annualSellPercentage_of :: "string \<Rightarrow> number" where
  "annualSellPercentage_of riskTolerance =
    (if riskTolerance = ''high'' then Fin 20 else if riskTolerance = ''medium'' then Fin 15 else Fin 10)"

text \<open>
  \<open>concentrationRisk ? Math.min(annualSellPercentage + 5, 25) : annualSellPercentage\<close>
\<close>

definition liquidationRecommendation_of :: "string \<Rightarrow> analyticsSummary \<Rightarrow> number" where
  "liquidationRecommendation_of riskTolerance s =
    (if concentrationRisk_of s
     then nmin (fadd (annualSellPercentage_of riskTolerance) (Fin 5)) (Fin 25)
     else annualSellPercentage_of riskTolerance)"

text \<open>\<open>analyticsSummary?.esopOverview?.percentOfPortfolio || '35+'\<close> in the template.\<close>

definition percentOfPortfolio_text :: "host \<Rightarrow> analyticsSummary \<Rightarrow> string" where
  "percentOfPortfolio_text h s =
    (case (case esopOverview s of None \<Rightarrow> None | Some ov \<Rightarrow> percentOfPortfolio ov) of
       None \<Rightarrow> ''35+''
     | Some p \<Rightarrow> if truthy p then to_str h p else ''35+'')"

definition generateDetailedEsopStrategy ::
  "host \<Rightarrow> string \<Rightarrow> string \<Rightarrow> analyticsSummary \<Rightarrow> userGoals \<Rightarrow> error + esopStrategy" where
  \<open>generateDetailedEsopStrategy h planningRegion riskTolerance s goals =
    (let esopValue = esopValue_of s;
         concentrationRisk = concentrationRisk_of s;
         currencySymbol = (if planningRegion = ''us'' then ''$'' else rupee);
         liquidationRecommendation = liquidationRecommendation_of riskTolerance s;
         taxes = get_property taxRates planningRegion
     in if taxes = Undefined then Inl TypeError
        else Inr \<lparr>
          overview = ''This ESOP integration strategy is tailored for ''
            @ (if planningRegion = ''us'' then ''US'' else ''Indian'')
            @ '' employees with '' @ riskTolerance
            @ '' risk tolerance, focusing on systematic diversification while maximizing after-tax returns.'',
          riskAssessment =
            (if concentrationRisk
             then ''Your portfolio shows significant concentration risk with ''
               @ percentOfPortfolio_text h s
               @ ''% in company stock. This exceeds recommended thresholds and increases volatility.''
             else ''Your current ESOP holdings represent a manageable portion of your overall portfolio. Continue monitoring this ratio as shares vest to prevent future concentration risk.''),
          liquidationPlan = ''Implement a disciplined approach to sell ''
            @ to_str h liquidationRecommendation
            @ ''% of vested shares annually to reduce single-stock exposure. ''
            @ (if concentrationRisk
               then ''Given your high concentration, consider accelerating this schedule in the first year.''
               else ''This gradual approach balances diversification needs with potential upside.''),
          taxPlanning = ''In '' @ toUpperCase planningRegion @ '', ''
            @ text_prop incomeTax taxes @ ''. After sale, ''
            @ text_prop capitalGains taxes @ ''. ''
            @ text_prop strategy taxes,
          futureVestingStrategy = ''As new shares vest quarterly or annually, evaluate your concentration metrics before each vesting event. Maintain a "sell-to-cover" strategy for tax obligations and consider selling additional shares if they exceed ''
            @ (if concentrationRisk then ''15'' else ''20'') @ ''% of your portfolio.'',
          exerciseFundingStrategy = \<lparr>
            estimatedCost = Math_round (fmul esopValue (literal (2 / 10))),
            monthlySavingsTarget =
              Math_round (fdiv (fmul esopValue (literal (2 / 10))) (Fin 12)),
            annualSellPercentage = liquidationRecommendation,
            taxRate = (if planningRegion = ''india'' then Fin 10 else Fin 22),
            fundingSources = [''Monthly savings allocation'', ''Sell-to-cover strategy'',
                              ''Short-term liquid investments'']\<rparr>,
          actionSteps = [
            \<lparr>step = ''Establish ESOP exercise fund'',
             details = ''Create a dedicated high-yield savings account specifically for funding future option exercises'',
             timeline = ''Immediate''\<rparr>,
            \<lparr>step = ''Implement quarterly sell strategy'',
             details = ''Sell '' @ to_str h liquidationRecommendation
               @ ''% of currently vested shares and reinvest according to your core allocation'',
             timeline = ''Next quarter''\<rparr>,
            \<lparr>step = ''Tax planning consultation'',
             details = ''Meet with a tax professional experienced in ''
               @ (if planningRegion = ''us'' then ''US equity compensation'' else ''Indian ESOP taxation'')
               @ '' to optimize exercise timing'',
             timeline = ''Within 30 days''\<rparr>,
            \<lparr>step = ''Annual portfolio rebalancing'',
             details = ''Adjust overall portfolio allocation to maintain target weights after integrating proceeds from ESOP sales'',
             timeline = ''Annually''\<rparr>],
          additionalRecommendations = [
            ''Consider a '' @ (if planningRegion = ''us'' then ''10b5-1 plan'' else ''structured selling program'')
              @ '' to automate sales during open windows'',
            ''Maintain a cash buffer of '' @ currencySymbol
              @ number_toLocaleString h (Math_round (fmul esopValue (literal (5 / 100))))
              @ '' for opportunistic exercises'',
            ''Review your strategy after significant company events or stock price movements of ''
              @ plus_minus @ ''20%'']\<rparr>)\<close>

subsection \<open>generateDetailedStrategies\<close>

text \<open>
  The funds of a region. The source's properties \<open>bonds\<close>, \<open>value\<close> and
  \<open>alternatives\<close> are named \<open>bondFunds\<close>, \<open>valueFunds\<close> and \<open>alternativeFunds\<close>
  here. Every index the service reads is within its array.
\<close>

record etf_row =
  largeCap :: "string list"
  midSmallCap :: "string list"
  international :: "string list"
  bondFunds :: "string list"
  dividend :: "string list"
  growth :: "string list"
  valueFunds :: "string list"
  sectors :: "string list"
  alternativeFunds :: "string list"

definition etfExamples :: "(string \<times> etf_row) list" where
  "etfExamples =
    [(''us'', \<lparr>
       largeCap = [''Vanguard S&P 500 ETF (VOO)'', ''SPDR S&P 500 ETF (SPY)'', ''iShares Core S&P 500 ETF (IVV)''],
       midSmallCap = [''Vanguard Mid-Cap ETF (VO)'', ''iShares Russell 2000 ETF (IWM)'', ''Vanguard Small-Cap ETF (VB)''],
       international = [''Vanguard Total International Stock ETF (VXUS)'', ''iShares MSCI EAFE ETF (EFA)''],
       bondFunds = [''iShares Core U.S. Aggregate Bond ETF (AGG)'', ''Vanguard Total Bond Market ETF (BND)''],
       dividend = [''Vanguard High Dividend Yield ETF (VYM)'', ''SPDR Portfolio S&P 500 High Dividend ETF (SPYD)''],
       growth = [''Vanguard Growth ETF (VUG)'', ''Invesco QQQ Trust (QQQ)''],
       valueFunds = [''Vanguard Value ETF (VTV)'', ''iShares S&P 500 Value ETF (IVE)''],
       sectors = [''Technology Select Sector SPDR Fund (XLK)'', ''Health Care Select Sector SPDR Fund (XLV)''],
       alternativeFunds = [''Vanguard Real Estate ETF (VNQ)'', ''SPDR Gold Shares (GLD)'']\<rparr>),
     (''india'', \<lparr>
       largeCap = [''Nippon India ETF Nifty BeES (NIFTYBEES)'', ''SBI Nifty Index Fund'', ''HDFC Index Fund - Sensex Plan''],
       midSmallCap = [''Motilal Oswal Nasdaq 100 ETF (MON100)'', ''Nippon India ETF Junior BeES (JUNIORBEES)''],
       international = [''Franklin India Feeder - Franklin U.S. Opportunities Fund'', ''ICICI Prudential US Bluechip Equity Fund''],
       bondFunds = [''SBI ETF - Liquid Fund'', ''HDFC Short Term Debt Fund'', ''ICICI Prudential Short Term Fund''],
       dividend = [''ICICI Prudential Dividend Yield Equity Fund'', ''UTI Dividend Yield Fund''],
       growth = [''HDFC Growth Opportunities Fund'', ''Axis Growth Opportunities Fund''],
       valueFunds = [''ICICI Prudential Value Discovery Fund'', ''Kotak India EQ Contra Fund''],
       sectors = [''ICICI Prudential Technology Fund'', ''Tata Digital India Fund''],
       alternativeFunds = [''SBI Gold Fund'', ''HDFC Gold Fund'', ''ICICI Prudential Regular Gold Savings Fund'']\<rparr>)]"

record strategy_object =
  title :: string
  description :: string
  examples :: "string list"
  allocation :: number
  detailedAdvice :: string

definition age_of :: "userGoals \<Rightarrow> number" where
  "age_of goals = or_default (currentAge goals) (Fin 35)"

definition retirementAge_of :: "userGoals \<Rightarrow> number" where
  "retirementAge_of goals = or_default (retirementAge goals) (Fin 60)"

definition investmentHorizon_of :: "userGoals \<Rightarrow> number" where
  "investmentHorizon_of goals = or_default (investmentHorizon goals) (Fin 10)"

definition monthlyIncome_of :: "userGoals \<Rightarrow> number" where
  "monthlyIncome_of goals = or_default (monthlyIncome goals) (Fin 100000)"

definition monthlyExpenses_of :: "userGoals \<Rightarrow> number" where
  "monthlyExpenses_of goals = or_default (monthlyExpenses goals) (Fin 50000)"

text \<open>
  \<open>monthlyIncome > 0 ? ((monthlyIncome - monthlyExpenses) / monthlyIncome) * 100 : 30\<close>,
  each of the three operations rounding its result to a double.
\<close>

definition savingsRate_of :: "userGoals \<Rightarrow> number" where
  "savingsRate_of goals =
    (if ngt (monthlyIncome_of goals) (Fin 0)
     then fmul (fdiv (fsub (monthlyIncome_of goals) (monthlyExpenses_of goals))
                     (monthlyIncome_of goals))
               (Fin 100)
     else Fin 30)"

text \<open>\<open>retirementAge - age\<close>, rounded to a double.\<close>

definition yearsToRetirement_of :: "userGoals \<Rightarrow> number" where
  "yearsToRetirement_of goals = fsub (retirementAge_of goals) (age_of goals)"

definition hasRetirementFocus_of :: "userGoals \<Rightarrow> bool" where
  "hasRetirementFocus_of goals =
    (ngt (age_of goals) (Fin 45) \<or> nlt (yearsToRetirement_of goals) (Fin 15))"

text \<open>\<open>riskTolerance === 'high' ? a : riskTolerance === 'medium' ? b : c\<close>\<close>

definition by_risk :: "string \<Rightarrow> 'a \<Rightarrow> 'a \<Rightarrow> 'a \<Rightarrow> 'a" where
  "by_risk riskTolerance a b c =
    (if riskTolerance = ''high'' then a else if riskTolerance = ''medium'' then b else c)"

definition core_strategy ::
  "host \<Rightarrow> string \<Rightarrow> string \<Rightarrow> userGoals \<Rightarrow> base_strategy looked_up \<Rightarrow> etf_row \<Rightarrow> strategy_object" where
  "core_strategy h planningRegion riskTolerance goals strategyBase regionETFs =
    \<lparr>title = ''Core Investment Strategy'',
     description = ''Focus on '' @ text_prop focus strategyBase
       @ '' through a diversified portfolio with '' @ tmpl h (num_prop equityAllocation strategyBase)
       @ ''% equities and '' @ tmpl h (num_prop bondAllocation strategyBase) @ ''% fixed income.'',
     examples = by_risk riskTolerance
       [growth regionETFs ! 0, growth regionETFs ! 1, midSmallCap regionETFs ! 0]
       [largeCap regionETFs ! 0, bondFunds regionETFs ! 0, international regionETFs ! 0]
       [largeCap regionETFs ! 0, bondFunds regionETFs ! 0, bondFunds regionETFs ! 1],
     allocation = by_risk riskTolerance (Fin 70) (Fin 60) (Fin 50),
     detailedAdvice = ''For a '' @ riskTolerance @ '' risk investor aged '' @ to_str h (age_of goals)
       @ '' in '' @ toUpperCase planningRegion @ '' with a '' @ to_str h (investmentHorizon_of goals)
       @ ''-year horizon, prioritize '' @ text_prop equityStyle strategyBase @ ''. ''
       @ (if hasRetirementFocus_of goals
          then ''Given your proximity to retirement, gradually increase your bond allocation by 1% annually.''
          else ''Your longer time horizon allows for more growth-oriented investments.'')
       @ '' Consider a '' @ tmpl h (num_prop bondAllocation strategyBase) @ ''% allocation to ''
       @ text_prop bondStyle strategyBase @ '' for income and stability.''\<rparr>"

definition sector_strategy ::
  "host \<Rightarrow> string \<Rightarrow> string \<Rightarrow> userGoals \<Rightarrow> etf_row \<Rightarrow> strategy_object" where
  "sector_strategy h planningRegion riskTolerance goals regionETFs =
    \<lparr>title = ''Sector Allocation Strategy'',
     description = ''Strategic exposure customized for your '' @ to_str h (age_of goals)
       @ ''-year age profile to high-potential sectors in the ''
       @ (if planningRegion = ''us'' then ''US'' else ''Indian'') @ '' market aligned with ''
       @ riskTolerance @ '' risk tolerance.'',
     examples = [sectors regionETFs ! 0, sectors regionETFs ! 1, growth regionETFs ! 0],
     allocation = by_risk riskTolerance (Fin 20) (Fin 15) (Fin 10),
     detailedAdvice = ''With '' @ riskTolerance @ '' risk tolerance at age '' @ to_str h (age_of goals)
       @ '', allocate '' @ by_risk riskTolerance ''15-20%'' ''10-15%'' ''5-10%''
       @ '' to sectors with long-term growth potential. ''
       @ (if hasRetirementFocus_of goals
          then ''As you approach retirement, shift towards defensive sectors like healthcare and utilities.''
          else ''With a longer horizon, consider higher-growth sectors.'')
       @ '' In '' @ (if planningRegion = ''us'' then ''the US'' else ''India'') @ '', focus on ''
       @ (if planningRegion = ''us'' then ''technology, healthcare, and clean energy''
          else ''IT, financial services, and consumer goods'') @ ''.''\<rparr>"

definition esop_diversification_strategy :: "string \<Rightarrow> etf_row \<Rightarrow> strategy_object" where
  "esop_diversification_strategy riskTolerance regionETFs =
    \<lparr>title = ''ESOP Diversification Strategy'',
     description = ''Systematic approach to rebalance portfolio as ESOP shares vest and become available for sale.'',
     examples = [''Sell '' @ by_risk riskTolerance ''15-20%'' ''10-15%'' ''5-10%'' @ '' of vested shares annually'',
                 ''Reinvest proceeds in core strategy'',
                 international regionETFs ! 0],
     allocation = by_risk riskTolerance (Fin 5) (Fin 10) (Fin 15),
     detailedAdvice = ''To reduce single-stock concentration risk, implement a disciplined selling strategy for vested ESOP shares. For each sale, reinvest proceeds following your core allocation model, prioritizing asset classes that are underweight in your overall portfolio.''\<rparr>"

definition retirement_income_strategy ::
  "host \<Rightarrow> string \<Rightarrow> string \<Rightarrow> userGoals \<Rightarrow> base_strategy looked_up \<Rightarrow> etf_row \<Rightarrow> strategy_object" where
  "retirement_income_strategy h planningRegion riskTolerance goals strategyBase regionETFs =
    \<lparr>title = ''Retirement Income Strategy'',
     description = ''Designed for '' @ to_str h (yearsToRetirement_of goals)
       @ '' years until retirement at age '' @ to_str h (retirementAge_of goals)
       @ '', focusing on income generation and capital preservation.'',
     examples = [dividend regionETFs ! 0, bondFunds regionETFs ! 0, alternativeFunds regionETFs ! 0],
     allocation = by_risk riskTolerance (Fin 5) (Fin 15) (Fin 25),
     detailedAdvice = ''With '' @ to_str h (yearsToRetirement_of goals)
       @ '' years until retirement at age '' @ to_str h (retirementAge_of goals)
       @ '', prioritize income-generating assets. Implement a glide path strategy, increasing bond allocation from current ''
       @ tmpl h (num_prop bondAllocation strategyBase) @ ''% to ''
       @ to_str h (nmin (fadd (to_number (num_prop bondAllocation strategyBase))
                              (fmul (Fin 2) (fsub (Fin 15) (yearsToRetirement_of goals))))
                        (Fin 70))
       @ ''% by retirement. Focus on dividend aristocrats, REITS, and high-quality bonds in ''
       @ (if planningRegion = ''us'' then ''the US market'' else ''India'') @ ''.''\<rparr>"

definition opportunistic_growth_strategy ::
  "host \<Rightarrow> string \<Rightarrow> string \<Rightarrow> userGoals \<Rightarrow> etf_row \<Rightarrow> strategy_object" where
  "opportunistic_growth_strategy h planningRegion riskTolerance goals regionETFs =
    \<lparr>title = ''Opportunistic Growth Strategy'',
     description = ''Leverage your strong '' @ to_fixed h (savingsRate_of goals) 1
       @ ''% savings rate to capture high-growth opportunities in ''
       @ (if planningRegion = ''us'' then ''US and global markets'' else ''Indian and emerging markets'')
       @ ''.'',
     examples = [midSmallCap regionETFs ! 0, growth regionETFs ! 1, sectors regionETFs ! 1],
     allocation = by_risk riskTolerance (Fin 5) (Fin 15) (Fin 10),
     detailedAdvice = ''With a '' @ to_fixed h (savingsRate_of goals) 1 @ ''% savings rate and ''
       @ to_str h (investmentHorizon_of goals)
       @ ''-year horizon, you can afford to take calculated risks for higher returns. Consider tactical allocations to emerging sectors, small-cap growth, and international markets. Your strong cash flow provides a buffer to weather short-term volatility.''\<rparr>"

definition financial_safety_strategy ::
  "host \<Rightarrow> string \<Rightarrow> string \<Rightarrow> userGoals \<Rightarrow> etf_row \<Rightarrow> strategy_object" where
  "financial_safety_strategy h planningRegion riskTolerance goals regionETFs =
    \<lparr>title = ''Financial Safety Strategy'',
     description = ''Build resilience with emergency reserves and defensive positions for long-term stability.'',
     examples = (if riskTolerance = ''low''
       then [bondFunds regionETFs ! 0, alternativeFunds regionETFs ! 0, ''High-yield savings'']
       else [valueFunds regionETFs ! 0, dividend regionETFs ! 0, bondFunds regionETFs ! 0]),
     allocation = by_risk riskTolerance (Fin 5) (Fin 15) (Fin 25),
     detailedAdvice = ''Maintain a robust emergency fund covering ''
       @ (if riskTolerance = ''low'' then ''12'' else if riskTolerance = ''medium'' then ''6'' else ''3'')
       @ '' months of expenses ('' @ (if planningRegion = ''us'' then ''$'' else rupee)
       @ number_toLocaleString h
           (fmul (monthlyExpenses_of goals)
              (if riskTolerance = ''low'' then Fin 12 else if riskTolerance = ''medium'' then Fin 6 else Fin 3))
       @ ''). Complement this with defensive equity positions and high-quality bonds to provide stability during market downturns. Review and replenish this reserve quarterly.''\<rparr>"

text \<open>
  Reading \<open>strategyBase.focus\<close> raises a TypeError when the risk tolerance has no row
  (\<open>strategyBase\<close> is \<open>undefined\<close>); reading \<open>regionETFs.growth[0]\<close> and the like
  raises one when the region has no funds (\<open>regionETFs\<close> is \<open>undefined\<close>, or an
  inherited member, whose \<open>growth\<close> is \<open>undefined\<close>).
\<close>

definition generateDetailedStrategies ::
  "host \<Rightarrow> string \<Rightarrow> string \<Rightarrow> userGoals \<Rightarrow> error + strategy_object list" where
  "generateDetailedStrategies h planningRegion riskTolerance goals =
    (let regionETFs = get_property etfExamples planningRegion;
         strategyBase = get_property (baseStrategies planningRegion) riskTolerance
     in if strategyBase = Undefined then Inl TypeError
        else case regionETFs of
          Found etfs \<Rightarrow>
            Inr [core_strategy h planningRegion riskTolerance goals strategyBase etfs,
                 sector_strategy h planningRegion riskTolerance goals etfs,
                 esop_diversification_strategy riskTolerance etfs,
                 (if hasRetirementFocus_of goals
                  then retirement_income_strategy h planningRegion riskTolerance goals strategyBase etfs
                  else if ngt (savingsRate_of goals) (Fin 30)
                  then opportunistic_growth_strategy h planningRegion riskTolerance goals etfs
                  else financial_safety_strategy h planningRegion riskTolerance goals etfs)]
        | _ \<Rightarrow> Inl TypeError)"

text \<open>The default value \<open>{}\<close> of the parameter \<open>userGoals\<close>.\<close>

definition no_goals :: userGoals where
  "no_goals = \<lparr>currentAge = None, retirementAge = None, investmentHorizon = None,
               monthlyIncome = None, monthlyExpenses = None\<rparr>"

subsection \<open>generateDetailedBenchmarks\<close>

record trailing_returns =
  return_1y :: real
  return_3y :: real
  return_5y :: real
  return_10y :: real

record benchmark =
  name :: string
  cagr :: real
  benchmark_volatility :: real  \<comment> \<open>the property \<open>volatility\<close>\<close>
  sharpe :: real
  returns :: trailing_returns
  benchmark_description :: string  \<comment> \<open>the property \<open>description\<close>\<close>
  dataAsOf :: string

record benchmark_set =
  primary :: benchmark
  secondary :: benchmark
  alternative :: benchmark

definition benchmarks :: "(string \<times> benchmark_set) list" where
  "benchmarks =
    [(''us'', \<lparr>
       primary = \<lparr>name = ''S&P 500'', cagr = 10.5, benchmark_volatility = 17.4, sharpe = 0.58,
         returns = \<lparr>return_1y = 18.2, return_3y = 10.3, return_5y = 12.1, return_10y = 10.5\<rparr>,
         benchmark_description = ''Index of 500 largest US publicly traded companies, widely considered the best gauge of large-cap US equities. Source: S&P Dow Jones Indices'',
         dataAsOf = ''2024-11-15''\<rparr>,
       secondary = \<lparr>name = ''Nasdaq Composite'', cagr = 13.5, benchmark_volatility = 22.8, sharpe = 0.48,
         returns = \<lparr>return_1y = 24.1, return_3y = 14.2, return_5y = 15.3, return_10y = 13.5\<rparr>,
         benchmark_description = ''Tech-heavy index representing over 3,000 stocks listed on the Nasdaq exchange. Source: Nasdaq Global Indexes'',
         dataAsOf = ''2024-11-15''\<rparr>,
       alternative = \<lparr>name = ''Russell 2000'', cagr = 7.8, benchmark_volatility = 24.2, sharpe = 0.14,
         returns = \<lparr>return_1y = 12.4, return_3y = 6.2, return_5y = 8.1, return_10y = 7.8\<rparr>,
         benchmark_description = ''Small-cap index representing 2000 of the smallest publicly traded US companies. Source: FTSE Russell'',
         dataAsOf = ''2024-11-15''\<rparr>\<rparr>),
     (''india'', \<lparr>
       primary = \<lparr>name = ''Nifty 50'', cagr = 11.2, benchmark_volatility = 19.6, sharpe = 0.38,
         returns = \<lparr>return_1y = 15.3, return_3y = 11.8, return_5y = 11.5, return_10y = 11.2\<rparr>,
         benchmark_description = ''Flagship index on the National Stock Exchange of India, representing 50 largest Indian companies. Source: NSE India'',
         dataAsOf = ''2024-11-15''\<rparr>,
       secondary = \<lparr>name = ''BSE Sensex'', cagr = 10.9, benchmark_volatility = 19.2, sharpe = 0.36,
         returns = \<lparr>return_1y = 14.8, return_3y = 11.2, return_5y = 11.1, return_10y = 10.9\<rparr>,
         benchmark_description = ''Index of 30 well-established and financially sound companies listed on the Bombay Stock Exchange. Source: BSE India'',
         dataAsOf = ''2024-11-15''\<rparr>,
       alternative = \<lparr>name = ''Nifty Next 50'', cagr = 12.8, benchmark_volatility = 23.5, sharpe = 0.26,
         returns = \<lparr>return_1y = 18.7, return_3y = 13.5, return_5y = 13.2, return_10y = 12.8\<rparr>,
         benchmark_description = ''Index representing the next 50 largest companies after the Nifty 50, often with higher growth potential. Source: NSE India'',
         dataAsOf = ''2024-11-15''\<rparr>\<rparr>)]"

record market_row =
  riskFreeRate_of :: real  \<comment> \<open>the property \<open>riskFreeRate\<close>\<close>
  inflationRate_of :: real  \<comment> \<open>the property \<open>inflationRate\<close>\<close>
  market_description :: string  \<comment> \<open>the property \<open>description\<close>\<close>

definition marketData :: "(string \<times> market_row) list" where
  "marketData =
    [(''us'', \<lparr>riskFreeRate_of = 4.63, inflationRate_of = 3.2,
       market_description = ''US markets characterized by high liquidity, strong regulatory frameworks, and global influence. Data as of Nov 2024.''\<rparr>),
     (''india'', \<lparr>riskFreeRate_of = 6.87, inflationRate_of = 5.49,
       market_description = ''Indian markets characterized by high growth potential, emerging economy dynamics, and increasing global integration. Data as of Nov 2024.''\<rparr>)]"

record benchmarkData =
  region_benchmarks :: "benchmark_set looked_up"  \<comment> \<open>the property \<open>benchmarks\<close>\<close>
  riskFreeRate :: "number option"
  inflationRate :: "number option"
  marketDescription :: "string option"
  lastUpdated :: string
  dataSources :: "(string \<times> string list) list"

text \<open>\<open>today.toISOString().split('T')[0]\<close>: the text before the first \<open>T\<close>.\<close>

definition formattedDate :: "host \<Rightarrow> string" where
  "formattedDate h = takeWhile (\<lambda>c. c \<noteq> CHR ''T'') (clock_toISOString h)"

text \<open>
  \<open>marketData[planningRegion].riskFreeRate\<close> raises a TypeError when the region has no
  entry; an inherited member has no such property.
\<close>

definition generateDetailedBenchmarks :: "host \<Rightarrow> string \<Rightarrow> error + benchmarkData" where
  "generateDetailedBenchmarks h planningRegion =
    (let market = get_property marketData planningRegion
     in if market = Undefined then Inl TypeError
        else Inr \<lparr>
          region_benchmarks = get_property benchmarks planningRegion,
          riskFreeRate = num_prop riskFreeRate_of market,
          inflationRate = num_prop inflationRate_of market,
          marketDescription = (case market of Found m \<Rightarrow> Some (market_description m) | _ \<Rightarrow> None),
          lastUpdated = formattedDate h,
          dataSources =
            [(''us'', [''S&P Dow Jones Indices'', ''Nasdaq Global Indexes'', ''FTSE Russell'',
                       ''US Treasury'', ''Bureau of Labor Statistics'']),
             (''india'', [''NSE India'', ''BSE India'', ''Reserve Bank of India'',
                          ''Ministry of Statistics and Programme Implementation''])]\<rparr>)"

section \<open>services/successProbabilityService.js\<close>

subsection \<open>The mathematical functions of the host\<close>

fun Math_log :: "number \<Rightarrow> number" where
  "Math_log NaN = NaN"
| "Math_log (Fin a) = (if a < 0 then NaN else if a = 0 then NegInf else Fin (ln a))"
| "Math_log PosInf = PosInf"
| "Math_log NegInf = NaN"

fun Math_sqrt :: "number \<Rightarrow> number" where
  "Math_sqrt NaN = NaN"
| "Math_sqrt (Fin a) = (if a < 0 then NaN else Fin (sqrt a))"
| "Math_sqrt PosInf = PosInf"
| "Math_sqrt NegInf = NaN"

fun Math_cos :: "number \<Rightarrow> number" where
  "Math_cos (Fin a) = Fin (cos a)"
| "Math_cos _ = NaN"

text \<open>
  \<open>parseFloat(x.toFixed(2))\<close>: the value rounded to two decimals, a tie going away
  from zero. From \<open>10^21\<close> on, \<open>toFixed\<close> prints the number itself.
\<close>

fun toFixed2_value :: "number \<Rightarrow> number" where
  "toFixed2_value (Fin a) =
    (if 10 ^ 21 \<le> \<bar>a\<bar> then Fin a
     else Fin (sgn a * of_int \<lfloor>\<bar>a\<bar> * 100 + 1 / 2\<rfloor> / 100))"
| "toFixed2_value x = x"

subsection \<open>runSimulation\<close>

record riskProfile =
  mean :: real
  stdDev :: real

definition riskProfiles :: "(string \<times> riskProfile) list" where
  "riskProfiles =
    [(''low'', \<lparr>mean = 6 / 100, stdDev = 8 / 100\<rparr>),
     (''medium'', \<lparr>mean = 9 / 100, stdDev = 15 / 100\<rparr>),
     (''high'', \<lparr>mean = 12 / 100, stdDev = 22 / 100\<rparr>)]"

text \<open>
  \<open>const { mean, stdDev } = riskProfiles[riskTolerance] || riskProfiles.medium\<close>:
  the two numbers the simulation uses, each \<open>undefined\<close> (here \<open>None\<close>) when the value
  looked up is an inherited member.
\<close>

definition profile_of :: "string \<Rightarrow> number option \<times> number option" where
  "profile_of riskTolerance =
    (let p = (case get_property riskProfiles riskTolerance of
                Undefined \<Rightarrow> get_property riskProfiles ''medium''
              | v \<Rightarrow> v)
     in (num_prop mean p, num_prop stdDev p))"

text \<open>
  The random source: \<open>rnd k\<close> is what the \<open>k\<close>-th call of \<open>Math.random()\<close> returns, a
  number from 0 (included) to 1 (excluded). The simulation threads the number of
  calls made so far.
\<close>

type_synonym random_source = "nat \<Rightarrow> real"

text \<open>The Box-Muller transform of two uniform draws, and the year's return.\<close>

definition box_muller :: "real \<Rightarrow> real \<Rightarrow> number" where
  "box_muller u1 u2 =
    nmul (Math_sqrt (nmul (Fin (- 2)) (Math_log (Fin u1))))
         (Math_cos (nmul (nmul (Fin 2) (Fin pi)) (Fin u2)))"

definition annualReturn :: "number option \<times> number option \<Rightarrow> real \<Rightarrow> real \<Rightarrow> number" where
  "annualReturn p u1 u2 = nadd (to_number (fst p)) (nmul (box_muller u1 u2) (to_number (snd p)))"

text \<open>
  The loop over the years of one scenario. The time horizon is a finite number (with
  \<open>Infinity\<close> the loop of the source would never end).
\<close>

function year_loop ::
  "random_source \<Rightarrow> number option \<times> number option \<Rightarrow> real \<Rightarrow> nat \<Rightarrow> number \<Rightarrow> nat \<Rightarrow> number \<times> nat" where
  "year_loop rnd p horizon n currentValue year =
    (if real year < horizon
     then year_loop rnd p horizon (n + 2)
            (nmul currentValue (nadd (Fin 1) (annualReturn p (rnd n) (rnd (n + 1))))) (Suc year)
     else (currentValue, n))"
  by pat_completeness auto
termination
  by (relation "measure (\<lambda>(rnd, p, horizon, n, currentValue, year). nat \<lceil>horizon\<rceil> - year)")
     (auto, linarith)

declare year_loop.simps [simp del]

definition scenarios :: nat where
  "scenarios = 1000"

function scenario_loop ::
  "random_source \<Rightarrow> number option \<times> number option \<Rightarrow> real \<Rightarrow> number \<Rightarrow> number \<Rightarrow>
   nat \<Rightarrow> nat \<Rightarrow> nat \<Rightarrow> nat \<times> nat" where
  "scenario_loop rnd p horizon initialInvestment goalAmount n successCount i =
    (if i < scenarios
     then (case year_loop rnd p horizon n initialInvestment 0 of
             (currentValue, n') \<Rightarrow>
               scenario_loop rnd p horizon initialInvestment goalAmount n'
                 (if nge currentValue goalAmount then Suc successCount else successCount) (Suc i))
     else (successCount, n))"
  by pat_completeness auto
termination
  by (relation "measure (\<lambda>(rnd, p, horizon, initialInvestment, goalAmount, n, successCount, i).
        scenarios - i)") auto

declare scenario_loop.simps [simp del]

record simulationResult =
  successProbability :: number
  result_riskTolerance :: string
  result_timeHorizon :: real

definition runSimulation ::
  "random_source \<Rightarrow> nat \<Rightarrow> string \<Rightarrow> real \<Rightarrow> number \<Rightarrow> number \<Rightarrow> simulationResult \<times> nat" where
  "runSimulation rnd n riskTolerance timeHorizon initialInvestment goalAmount =
    (case scenario_loop rnd (profile_of riskTolerance) timeHorizon initialInvestment goalAmount n 0 0 of
       (successCount, n') \<Rightarrow>
         (\<lparr>successProbability =
              toFixed2_value (nmul (ndiv (Fin (real successCount)) (Fin (real scenarios))) (Fin 100)),
            result_riskTolerance = riskTolerance,
            result_timeHorizon = timeHorizon\<rparr>, n'))"

subsection \<open>generateSuccessProbabilities\<close>

text \<open>
  A holding as models/Esop.js stores it and services/csvService.js builds it. A date is
  a time value (milliseconds since the epoch) or \<open>null\<close>.
\<close>

record esop =
  userId :: string
  grantDate :: "int option"
  exercisePrice :: number
  vestingSchedule :: string
  expirationDate :: "int option"
  totalGrants :: number
  vested :: number
  unvested :: number
  exercised :: number
  ticker :: string
  type :: string
  quantity :: number
  price :: number
  exerciseDate :: "int option"
  status :: string
  "notes" :: string








text \<open>A holding for the examples.\<close>

definition example_holding :: esop where
  "example_holding =
    \<lparr>userId = ''u1'', grantDate = None, exercisePrice = Fin (5 / 2), vestingSchedule = ''Standard'',
     expirationDate = None, totalGrants = Fin 100, vested = Fin 40, unvested = Fin 60,
     exercised = Fin 0, ticker = ''ABC'', type = ''ISO'', quantity = Fin 100, price = Fin (5 / 2),
     exerciseDate = None, status = ''Not exercised'', notes = []\<rparr>"

section \<open>services/csvService.js\<close>

subsection \<open>Strings to numbers\<close>

text \<open>
  White space that \<open>parseInt\<close>, \<open>parseFloat\<close> and \<open>Number\<close> skip: the ASCII white
  space characters (tab, line feed, vertical tab, form feed, carriage return, space).
  Strings are byte strings here; the white space characters outside ASCII are not
  recognised.
\<close>

definition is_whitespace :: "char \<Rightarrow> bool" where
  "is_whitespace c = (c \<in> set [CHR 0x09, CHR 0x0A, CHR 0x0B, CHR 0x0C, CHR 0x0D, CHR 0x20])"

definition is_digit :: "char \<Rightarrow> bool" where
  "is_digit c = (c \<in> set ''0123456789'')"

definition digit_value :: "char \<Rightarrow> nat" where
  "digit_value c =
    (case map_of (zip ''0123456789abcdefABCDEF''
                      [0, 1, 2, 3, 4, 5, 6, 7, 8, 9, 10, 11, 12, 13, 14, 15, 10, 11, 12, 13, 14, 15]) c of
       Some d \<Rightarrow> d
     | None \<Rightarrow> 0)"

definition digits_value :: "nat \<Rightarrow> string \<Rightarrow> nat" where
  "digits_value radix ds = foldl (\<lambda>acc c. acc * radix + digit_value c) 0 ds"

text \<open>An optional sign: whether it is a minus, and the rest.\<close>

fun strip_sign :: "string \<Rightarrow> bool \<times> string" where
  "strip_sign [] = (False, [])"
| "strip_sign (c # cs) =
    (if c = CHR ''-'' then (True, cs) else if c = CHR ''+'' then (False, cs) else (False, c # cs))"

text \<open>
  \<open>parseInt(s, 10)\<close>: skip white space, read a sign, read decimal digits as far as they
  go; \<open>NaN\<close> when there is none. (The value is the integer the digits denote; the
  source rounds it to a double.)
\<close>

definition parseInt10 :: "string \<Rightarrow> number" where
  "parseInt10 s =
    (case strip_sign (dropWhile is_whitespace s) of
       (negative, rest) \<Rightarrow>
         (let ds = takeWhile is_digit rest
          in if ds = [] then NaN
             else Fin ((if negative then - 1 else 1) * real (digits_value 10 ds))))"

text \<open>An exponent part \<open>e\<close>, \<open>e+\<close>, \<open>e-\<close> with digits, if there is one: its value and the rest.\<close>

fun parse_exponent :: "string \<Rightarrow> int \<times> string" where
  "parse_exponent [] = (0, [])"
| "parse_exponent (c # cs) =
    (if c = CHR ''e'' \<or> c = CHR ''E''
     then (case strip_sign cs of
             (negative, rest) \<Rightarrow>
               (let ds = takeWhile is_digit rest
                in if ds = [] then (0, c # cs)
                   else ((if negative then - 1 else 1) * int (digits_value 10 ds),
                         dropWhile is_digit rest)))
     else (0, c # cs))"

definition scale10 :: "real \<Rightarrow> int \<Rightarrow> real" where
  "scale10 x e = (if 0 \<le> e then x * 10 ^ nat e else x / 10 ^ nat (- e))"

text \<open>
  The longest prefix that is a decimal literal (\<open>StrDecimalLiteral\<close>): a sign,
  then \<open>Infinity\<close> or digits with an optional fraction and exponent. The result is the
  value and the text left over, or \<open>None\<close> when no prefix is a literal.
\<close>

definition parse_decimal :: "string \<Rightarrow> (number \<times> string) option" where
  "parse_decimal s =
    (case strip_sign s of
       (negative, s2) \<Rightarrow>
         if take 8 s2 = ''Infinity'' then Some (if negative then NegInf else PosInf, drop 8 s2)
         else
           (let ip = takeWhile is_digit s2;
                r1 = dropWhile is_digit s2;
                dot = (case r1 of [] \<Rightarrow> False | c # t \<Rightarrow> c = CHR ''.'');
                fp = (if dot then takeWhile is_digit (tl r1) else []);
                r2 = (if dot then dropWhile is_digit (tl r1) else r1)
            in if ip = [] \<and> fp = [] then None
               else (case parse_exponent r2 of
                       (e, r3) \<Rightarrow>
                         Some (Fin ((if negative then - 1 else 1) *
                                 scale10 (real (digits_value 10 ip) +
                                          real (digits_value 10 fp) / 10 ^ length fp) e),
                               r3))))"

definition parseFloat :: "string \<Rightarrow> number" where
  "parseFloat s =
    (case parse_decimal (dropWhile is_whitespace s) of None \<Rightarrow> NaN | Some (v, rest) \<Rightarrow> v)"

text \<open>
  \<open>ToNumber\<close> of a string, as unary minus and the \<open>Date\<close> constructor apply it: white
  space is trimmed at both ends, the empty string is 0, and the whole of what is left
  must be a decimal literal, or \<open>0x\<close>, \<open>0o\<close>, \<open>0b\<close> followed by digits of that radix.
\<close>

definition trim :: "string \<Rightarrow> string" where
  "trim s = rev (dropWhile is_whitespace (rev (dropWhile is_whitespace s)))"

definition radix_literal :: "nat \<Rightarrow> string \<Rightarrow> string \<Rightarrow> number" where
  "radix_literal radix allowed ds =
    (if ds \<noteq> [] \<and> list_all (\<lambda>c. c \<in> set allowed) ds then Fin (real (digits_value radix ds)) else NaN)"

definition string_to_number :: "string \<Rightarrow> number" where
  "string_to_number s =
    (let t = trim s
     in if t = [] then Fin 0
        else if take 2 t = ''0x'' \<or> take 2 t = ''0X''
          then radix_literal 16 ''0123456789abcdefABCDEF'' (drop 2 t)
        else if take 2 t = ''0o'' \<or> take 2 t = ''0O'' then radix_literal 8 ''01234567'' (drop 2 t)
        else if take 2 t = ''0b'' \<or> take 2 t = ''0B'' then radix_literal 2 ''01'' (drop 2 t)
        else (case parse_decimal t of
                Some (v, rest) \<Rightarrow> if rest = [] then v else NaN
              | None \<Rightarrow> NaN))"

subsection \<open>Dates\<close>

text \<open>
  A date is its time value: milliseconds since the epoch, in UTC; \<open>None\<close> stands for an
  invalid date. How the host parses a date string that \<open>new Date(string)\<close> is given
  (ECMAScript fixes this for the ISO format only) and the offset of local time from
  UTC are parameters.
\<close>

record date_host =
  native_parse :: "string \<Rightarrow> int option"
  LocalTZA :: "int \<Rightarrow> int"

definition msPerDay :: int where
  "msPerDay = 86400000"

definition DayFromYear :: "int \<Rightarrow> int" where
  "DayFromYear y = 365 * (y - 1970) + (y - 1969) div 4 - (y - 1901) div 100 + (y - 1601) div 400"

definition InLeapYear :: "int \<Rightarrow> bool" where
  "InLeapYear y = ((y mod 4 = 0 \<and> y mod 100 \<noteq> 0) \<or> y mod 400 = 0)"

definition days_before_month :: "int \<Rightarrow> int \<Rightarrow> int" where
  "days_before_month y m =
    [0, 31, 59, 90, 120, 151, 181, 212, 243, 273, 304, 334] ! nat m +
    (if InLeapYear y \<and> 2 \<le> m then 1 else 0)"

text \<open>\<open>ToIntegerOrInfinity\<close> of a finite number: truncation towards zero.\<close>

definition ToInteger :: "real \<Rightarrow> int" where
  "ToInteger x = (if 0 \<le> x then \<lfloor>x\<rfloor> else \<lceil>x\<rceil>)"

text \<open>
  \<open>MakeDay\<close>: the day number of the given date; months beyond 0..11 carry into the
  year, and the day counts on from the first of the month.
\<close>

definition MakeDay :: "real \<Rightarrow> real \<Rightarrow> real \<Rightarrow> int" where
  "MakeDay year month date =
    (let y = ToInteger year; m = ToInteger month; dt = ToInteger date;
         ym = y + m div 12; mn = m mod 12
     in DayFromYear ym + days_before_month ym mn + dt - 1)"

definition TimeClip :: "int \<Rightarrow> int option" where
  "TimeClip t = (if 8640000000000000 < \<bar>t\<bar> then None else Some t)"

text \<open>
  \<open>new Date(year, monthIndex, day)\<close>: a year from 0 to 99 means 1900 to 1999; the
  date is midnight local time; an argument that is not a finite number makes the date
  invalid.
\<close>

fun Date3 :: "date_host \<Rightarrow> number \<Rightarrow> number \<Rightarrow> number \<Rightarrow> int option" where
  "Date3 dh (Fin y) (Fin m) (Fin d) =
    (let yi = ToInteger y;
         yr = (if 0 \<le> yi \<and> yi \<le> 99 then 1900 + yi else yi);
         local = MakeDay (real_of_int yr) m d * msPerDay
     in TimeClip (local - LocalTZA dh local))"
| "Date3 dh _ _ _ = None"

text \<open>\<open>s.split(c)\<close> for a separator of one character.\<close>

fun split_on :: "char \<Rightarrow> string \<Rightarrow> string list" where
  "split_on c [] = [[]]"
| "split_on c (x # xs) =
    (if x = c then [] # split_on c xs
     else (case split_on c xs of [] \<Rightarrow> [[x]] | p # ps \<Rightarrow> (x # p) # ps))"

text \<open>
  parseDate. The argument is a string or \<open>undefined\<close> (here \<open>None\<close>); the result is a
  date or \<open>null\<close> (here \<open>None\<close>). Logging is left out.
\<close>

definition parseDate :: "date_host \<Rightarrow> string option \<Rightarrow> int option" where
  "parseDate dh dateString =
    (case dateString of
       None \<Rightarrow> None
     | Some s \<Rightarrow>
         if s = [] then None
         else (case native_parse dh s of
                 Some t \<Rightarrow> Some t
               | None \<Rightarrow>
                   (let partsSlash = split_on CHR ''/'' s;
                        bySlash =
                          (if length partsSlash = 3
                           then Date3 dh (string_to_number (partsSlash ! 2))
                                  (nsub (string_to_number (partsSlash ! 0)) (Fin 1))
                                  (string_to_number (partsSlash ! 1))
                           else None)
                    in case bySlash of
                         Some t \<Rightarrow> Some t
                       | None \<Rightarrow>
                           (let partsDash = split_on CHR ''-'' s
                            in if length partsDash = 3
                               then Date3 dh (string_to_number (partsDash ! 2))
                                      (nsub (string_to_number (partsDash ! 1)) (Fin 1))
                                      (string_to_number (partsDash ! 0))
                               else None))))"

subsection \<open>The normalised row\<close>

text \<open>
  A row as csv-parser delivers it: column names with their text. \<open>data.a || data.b\<close>
  takes the first column that is present and not the empty string.
\<close>

type_synonym csv_row = "(string \<times> string) list"

fun first_truthy :: "string option list \<Rightarrow> string option" where
  "first_truthy [] = None"
| "first_truthy (None # rest) = first_truthy rest"
| "first_truthy (Some s # rest) = (if s = [] then first_truthy rest else Some s)"

definition field :: "csv_row \<Rightarrow> string list \<Rightarrow> string option" where
  "field data keys = first_truthy (map (map_of data) keys)"

text \<open>
  \<open>parseInt(... || 0, 10)\<close> and \<open>parseFloat(... || 0)\<close>: when no column is there, the
  number 0 is parsed, as the text \<open>0\<close>.
\<close>

definition int_field :: "csv_row \<Rightarrow> string list \<Rightarrow> number" where
  "int_field data keys = parseInt10 (case field data keys of Some s \<Rightarrow> s | None \<Rightarrow> ''0'')"

definition float_field :: "csv_row \<Rightarrow> string list \<Rightarrow> number" where
  "float_field data keys = parseFloat (case field data keys of Some s \<Rightarrow> s | None \<Rightarrow> ''0'')"

definition text_field :: "csv_row \<Rightarrow> string list \<Rightarrow> string \<Rightarrow> string" where
  "text_field data keys fallback = (case field data keys of Some s \<Rightarrow> s | None \<Rightarrow> fallback)"

definition processRow :: "date_host \<Rightarrow> string \<Rightarrow> csv_row \<Rightarrow> esop" where
  "processRow dh user data =
    (let grants = int_field data [''totalGrants'', ''total_grants'', ''grants''];
         vested_count = int_field data [''vested''];
         unvested_count = int_field data [''unvested''];
         exercised_count = int_field data [''exercised''];
         exercise_price = float_field data [''exercisePrice'', ''exercise_price'', ''price'']
     in \<lparr>userId = user,
         grantDate = parseDate dh (field data [''grantDate'', ''grant_date'', ''Grant Date'']),
         exercisePrice = exercise_price,
         vestingSchedule =
           text_field data [''vestingSchedule'', ''vesting_schedule'', ''Vesting Schedule''] ''Standard'',
         expirationDate =
           parseDate dh (field data [''expirationDate'', ''expiration_date'', ''Expiration Date'']),
         totalGrants = grants,
         vested = vested_count,
         unvested = unvested_count,
         exercised = exercised_count,
         ticker = toUpperCase (text_field data [''ticker'', ''symbol''] ''N/A''),
         type = text_field data [''type'', ''option_type''] ''ISO'',
         quantity = grants,
         price = exercise_price,
         exerciseDate = parseDate dh (field data [''exerciseDate'', ''exercise_date'', ''Exercise Date'']),
         status = (if ngt exercised_count (Fin 0) then ''Exercised'' else ''Not exercised''),
         notes = text_field data [''notes'', ''comments''] []\<rparr>)"

subsection \<open>parseAndSaveEsopCSV\<close>

text \<open>
  \<open>fs.createReadStream(filePath).pipe(csv())\<close> is two streams. The csv-parser stream,
  which \<open>pipe\<close> returns and on which the three handlers are registered, emits rows
  (\<open>Data\<close>), then its end (\<open>End\<close>) or an error (\<open>Error\<close>, with the error's message).
  The file stream behind it emits its own error when the file cannot be opened or read
  (\<open>Read_error\<close>); \<open>pipe\<close> does not pass that event on to the csv-parser stream, and
  the service registers no handler on the file stream.

  The storage collaborator (the Esop model) is a parameter: each operation returns its
  result and the store after it, or throws an error with a message (\<open>Inl\<close>), for the
  writing operations with the store it left.
\<close>

datatype stream_event = Data csv_row | End | Error string | Read_error string

record 's collaborator =
  countDocuments :: "string \<Rightarrow> 's \<Rightarrow> string + nat"
  deleteMany :: "string \<Rightarrow> 's \<Rightarrow> (string \<times> 's) + (nat \<times> 's)"
  insertMany :: "esop list \<Rightarrow> 's \<Rightarrow> (string \<times> 's) + (esop list \<times> 's)"

text \<open>
  How the promise settles: resolved with the saved records, or rejected, with the
  csv-parser stream's own error as it is (the service defines no error class for it) or
  with a new \<open>DatabaseError\<close>. It is never settled when the stream neither ends nor
  fails (\<open>Pending\<close>), and when an \<open>error\<close> event finds no handler (\<open>Uncaught\<close>): the
  emitter then throws the error, outside the promise, as an uncaught exception of the
  process.
\<close>

datatype rejection = Stream_error string | DatabaseError string

datatype outcome = Resolved "esop list" | Rejected rejection | Pending | Uncaught string

text \<open>The handler of \<open>end\<close>: count, delete, insert; any error is caught and wrapped.\<close>

definition on_end :: "'s collaborator \<Rightarrow> string \<Rightarrow> esop list \<Rightarrow> 's \<Rightarrow> outcome \<times> 's" where
  "on_end db user results store =
    (case countDocuments db user store of
       Inl msg \<Rightarrow> (Rejected (DatabaseError (''Failed to save ESOP data: '' @ msg)), store)
     | Inr existingRecords \<Rightarrow>
         (case deleteMany db user store of
            Inl (msg, store1) \<Rightarrow>
              (Rejected (DatabaseError (''Failed to save ESOP data: '' @ msg)), store1)
          | Inr (deletedCount, store1) \<Rightarrow>
              (case insertMany db results store1 of
                 Inl (msg, store2) \<Rightarrow>
                   (Rejected (DatabaseError (''Failed to save ESOP data: '' @ msg)), store2)
               | Inr (savedResults, store2) \<Rightarrow> (Resolved savedResults, store2))))"

text \<open>
  The handlers of \<open>data\<close>, \<open>end\<close> and \<open>error\<close> of the csv-parser stream; nothing is
  delivered after the last two. An error of the file stream reaches none of them, and
  the file stream stops feeding the csv-parser stream, which never ends.
\<close>

fun stream_loop ::
  "date_host \<Rightarrow> 's collaborator \<Rightarrow> string \<Rightarrow> esop list \<Rightarrow> stream_event list \<Rightarrow> 's \<Rightarrow> outcome \<times> 's" where
  "stream_loop dh db user results [] store = (Pending, store)"
| "stream_loop dh db user results (Data d # events) store =
    stream_loop dh db user (results @ [processRow dh user d]) events store"
| "stream_loop dh db user results (End # events) store = on_end db user results store"
| "stream_loop dh db user results (Error err # events) store = (Rejected (Stream_error err), store)"
| "stream_loop dh db user results (Read_error err # events) store = (Uncaught err, store)"

definition parseAndSaveEsopCSV ::
  "date_host \<Rightarrow> 's collaborator \<Rightarrow> string \<Rightarrow> stream_event list \<Rightarrow> 's \<Rightarrow> outcome \<times> 's" where
  "parseAndSaveEsopCSV dh db user events store = stream_loop dh db user [] events store"

text \<open>
  Examples of the parameters: a host whose native parser reads \<open>01-02-2021\<close> as
  month-day-year (2 January 2021, as V8 does) and nothing else, in the UTC time zone;
  and a store in memory, whose insert can be made to fail.
\<close>

definition example_date_host :: date_host where
  "example_date_host =
    \<lparr>native_parse = (\<lambda>s. if s = ''01-02-2021'' then Some 1609545600000 else None),
     LocalTZA = (\<lambda>t. 0)\<rparr>"

definition memory_store :: "bool \<Rightarrow> esop list collaborator" where
  "memory_store insert_fails =
    \<lparr>countDocuments = (\<lambda>user store. Inr (length (filter (\<lambda>r. userId r = user) store))),
     deleteMany = (\<lambda>user store.
       Inr (length (filter (\<lambda>r. userId r = user) store), filter (\<lambda>r. userId r \<noteq> user) store)),
     insertMany = (\<lambda>records store.
       if insert_fails then Inl (''connection lost'', store) else Inr (records, store @ records))\<rparr>"

section \<open>Properties\<close>

subsection \<open>Double arithmetic\<close>

text \<open>
  \<open>binary_exponent\<close> is the exponent of the binary order of magnitude, and \<open>binary64\<close>
  rounds to a nearest double: its result is an integer \<open>m\<close> of magnitude at most \<open>2^53\<close>
  times the spacing \<open>2^(e - 52)\<close> of the doubles around the argument, and is at most half
  that spacing away from the argument. An integer below \<open>2^53\<close> in magnitude is a double.
\<close>

lemma bit_length_bounds:
  "0 < n \<Longrightarrow> 2 ^ (bit_length n - 1) \<le> n \<and> n < 2 ^ bit_length n"
proof (induction n rule: bit_length.induct)
  case (1 n)
  show ?case
  proof (cases "n = 1")
    case True
    then show ?thesis by (simp add: bit_length.simps)
  next
    case False
    with "1.prems" have half: "0 < n div 2" by simp
    from "1.prems" have "\<not> n \<le> 0" by simp
    from "1.IH" [OF this half] have ih: "2 ^ (bit_length (n div 2) - 1) \<le> n div 2"
      "n div 2 < 2 ^ bit_length (n div 2)" by simp_all
    from half have pos: "0 < bit_length (n div 2)"
      by (subst bit_length.simps) simp
    have len: "bit_length n = Suc (bit_length (n div 2))"
      using "1.prems" by (subst bit_length.simps) simp
    from pos have "(2::int) ^ bit_length (n div 2) = 2 * 2 ^ (bit_length (n div 2) - 1)"
      by (cases "bit_length (n div 2)") simp_all
    with ih show ?thesis
      unfolding len by simp linarith
  qed
qed

lemma bit_length_pos: "0 < n \<Longrightarrow> 0 < bit_length n"
  by (subst bit_length.simps) simp

lemma scale2_powr: "scale2 a k = a * 2 powr (of_int k)"
proof (cases "0 \<le> k")
  case True
  then have "(2::real) powr (of_int k) = 2 ^ nat k"
    by (simp add: powr_realpow [symmetric])
  with True show ?thesis by (simp add: scale2_def)
next
  case False
  then have "(2::real) powr (of_int k) = 1 / 2 ^ nat (- k)"
    by (simp add: powr_realpow [symmetric] powr_minus_divide [symmetric])
  with False show ?thesis by (simp add: scale2_def)
qed

lemma round_half_even_error: "\<bar>of_int (round_half_even a) - a\<bar> \<le> 1 / 2"
  unfolding round_half_even_def Let_def by (auto; linarith)

lemma binary_exponent_bounds:
  assumes "0 < a"
  shows "scale2 1 (binary_exponent a) \<le> a \<and> a < scale2 2 (binary_exponent a)"
proof (cases "1 \<le> a")
  case True
  then have n: "0 < \<lfloor>a\<rfloor>" by simp
  let ?k = "bit_length \<lfloor>a\<rfloor>"
  from bit_length_bounds [OF n] have lo: "2 ^ (?k - 1) \<le> \<lfloor>a\<rfloor>" and hi: "\<lfloor>a\<rfloor> < 2 ^ ?k"
    by simp_all
  from bit_length_pos [OF n] have k: "0 < ?k" .
  from lo have "real_of_int (2 ^ (?k - 1)) \<le> a"
    by (meson le_floor_iff)
  then have lo': "2 ^ (?k - 1) \<le> a" by simp
  from hi have "a < real_of_int (2 ^ ?k)"
    by (meson floor_less_iff)
  then have hi': "a < 2 ^ ?k" by simp
  from k have e: "binary_exponent a = int (?k - 1)"
    using True by (simp add: binary_exponent_def)
  from k have "(2::real) * 2 ^ (?k - 1) = 2 ^ ?k"
    by (cases ?k) simp_all
  with lo' hi' show ?thesis
    unfolding e by (simp add: scale2_def)
next
  case False
  with assms have inv: "1 < 1 / a" by simp
  then have n: "0 < \<lceil>1 / a\<rceil> - 1" by linarith
  let ?k = "bit_length (\<lceil>1 / a\<rceil> - 1)"
  from bit_length_bounds [OF n] have lo: "2 ^ (?k - 1) \<le> \<lceil>1 / a\<rceil> - 1" and hi: "\<lceil>1 / a\<rceil> - 1 < 2 ^ ?k"
    by simp_all
  from bit_length_pos [OF n] have k: "0 < ?k" .
  from lo have "2 ^ (?k - 1) < \<lceil>1 / a\<rceil>" by simp
  then have "real_of_int (2 ^ (?k - 1)) < 1 / a"
    by (meson less_ceiling_iff)
  then have lo': "2 ^ (?k - 1) < 1 / a" by simp
  from hi have "\<lceil>1 / a\<rceil> \<le> 2 ^ ?k" by simp
  then have "1 / a \<le> real_of_int (2 ^ ?k)"
    by (meson ceiling_le_iff)
  then have hi': "1 / a \<le> 2 ^ ?k" by simp
  have e: "binary_exponent a = - int ?k"
    using False by (simp add: binary_exponent_def)
  from hi' assms have one: "1 / 2 ^ ?k \<le> a"
    by (simp add: field_simps)
  from lo' assms have "a < 1 / 2 ^ (?k - 1)"
    by (simp add: field_simps)
  moreover from k have "(1::real) / 2 ^ (?k - 1) = 2 / 2 ^ ?k"
    by (cases ?k) simp_all
  ultimately have two: "a < 2 / 2 ^ ?k" by simp
  from one two k show ?thesis
    unfolding e by (simp add: scale2_def)
qed

lemma binary64_nearest:
  assumes "binary64 x = Fin y"
  shows "\<exists>m. \<bar>m\<bar> \<le> 2 ^ 53 \<and>
     y = scale2 (of_int m) (max (binary_exponent \<bar>x\<bar>) (- 1022) - 52) \<and>
     \<bar>y - x\<bar> \<le> scale2 (1 / 2) (max (binary_exponent \<bar>x\<bar>) (- 1022) - 52)"
proof (cases "x = 0")
  case True
  with assms have "y = 0" by (simp add: binary64_def)
  with True show ?thesis
    by (intro exI [of _ 0]) (simp add: scale2_def)
next
  case False
  let ?e = "max (binary_exponent \<bar>x\<bar>) (- 1022)"
  let ?t = "scale2 x (52 - ?e)"
  let ?m = "round_half_even ?t"
  from False assms have y: "y = scale2 (of_int ?m) (?e - 52)"
    by (simp add: binary64_def Let_def split: if_splits)
  have x: "x = scale2 ?t (?e - 52)"
    by (simp add: scale2_powr powr_add [symmetric] mult.assoc)
  have "y - x = (of_int ?m - ?t) * 2 powr (of_int (?e - 52))"
    by (subst x, subst y) (simp add: scale2_powr algebra_simps)
  then have "\<bar>y - x\<bar> = \<bar>of_int ?m - ?t\<bar> * 2 powr (of_int (?e - 52))"
    by (simp add: abs_mult)
  also have "\<dots> \<le> 1 / 2 * 2 powr (of_int (?e - 52))"
    by (intro mult_right_mono round_half_even_error) simp
  finally have err: "\<bar>y - x\<bar> \<le> scale2 (1 / 2) (?e - 52)"
    by (simp add: scale2_powr)
  from False have pos: "0 < \<bar>x\<bar>" by simp
  from binary_exponent_bounds [OF pos] have "\<bar>x\<bar> < 2 * 2 powr (of_int (binary_exponent \<bar>x\<bar>))"
    by (simp add: scale2_powr)
  also have "\<dots> \<le> 2 * 2 powr (of_int ?e)"
    by simp
  finally have "\<bar>x\<bar> * 2 powr (of_int (52 - ?e)) < 2 * 2 powr (of_int ?e) * 2 powr (of_int (52 - ?e))"
    by (intro mult_strict_right_mono) simp_all
  also have "\<dots> = 2 * 2 powr 52"
    by (simp add: powr_add [symmetric] mult.assoc)
  also have "\<dots> = 2 ^ 53"
    by simp
  finally have "\<bar>?t\<bar> < 2 ^ 53"
    by (simp add: scale2_powr abs_mult)
  with round_half_even_error [of ?t] have "\<bar>real_of_int ?m\<bar> < 2 ^ 53 + 1"
    by linarith
  then have "\<bar>?m\<bar> < 2 ^ 53 + 1"
    by (metis (mono_tags) of_int_abs of_int_less_iff of_int_numeral of_int_power of_int_add of_int_1)
  then have m: "\<bar>?m\<bar> \<le> 2 ^ 53" by simp
  from m y err show ?thesis by blast
qed

lemma round_half_even_of_int: "round_half_even (of_int n) = n"
  by (simp add: round_half_even_def)

lemma binary64_of_int:
  assumes "\<bar>k\<bar> < 2 ^ 53"
  shows "binary64 (of_int k) = Fin (of_int k)"
proof (cases "k = 0")
  case True
  then show ?thesis by (simp add: binary64_def)
next
  case False
  let ?a = "\<bar>real_of_int k\<bar>"
  let ?b = "binary_exponent ?a"
  from False have one: "1 \<le> ?a"
    by (metis abs_zero linorder_not_less of_int_abs of_int_eq_0_iff of_int_le_iff of_int_1 zabs_less_one_iff zero_less_abs_iff less_le_not_le)
  then have pos: "0 < ?a" by simp
  from False have "0 < \<bar>k\<bar>" by simp
  then have "0 < bit_length \<bar>k\<bar>" by (rule bit_length_pos)
  with one have nonneg: "0 \<le> ?b"
    by (simp add: binary_exponent_def flip: of_int_abs)
  from binary_exponent_bounds [OF pos] have "2 powr (of_int ?b) \<le> ?a"
    by (simp add: scale2_powr)
  also from assms have "?a < 2 ^ 53"
    by (metis of_int_abs of_int_less_iff of_int_numeral of_int_power)
  also have "(2::real) ^ 53 = 2 powr 53"
    by simp
  finally have "2 powr (of_int ?b) < (2::real) powr 53" .
  from powr_less_cancel [OF this] have small: "?b \<le> 52" by simp
  from nonneg have e: "max ?b (- 1022) = ?b" by simp
  let ?j = "nat (52 - ?b)"
  from small have t: "scale2 (of_int k) (52 - ?b) = of_int (k * 2 ^ ?j)"
    by (simp add: scale2_def)
  have y: "scale2 (of_int (round_half_even (scale2 (of_int k) (52 - ?b)))) (?b - 52) = of_int k"
    unfolding t round_half_even_of_int using small by (simp add: scale2_def)
  from assms have "\<bar>real_of_int k\<bar> < 2 ^ 53"
    by (metis of_int_abs of_int_less_iff of_int_numeral of_int_power)
  also have "(2::real) ^ 53 < 2 ^ 1024"
    by simp
  finally have fits: "\<bar>real_of_int k\<bar> < 2 ^ 1024" .
  from False fits show ?thesis
    unfolding binary64_def Let_def e y by simp
qed

lemmas binary64_eval = binary64_def binary_exponent_def scale2_def round_half_even_def Let_def
  bit_length.simps

text \<open>
  The doubles of the examples. \<open>0.2\<close> is not a double; 30 is. In double arithmetic
  \<open>35.3 - 20.3\<close> is \<open>14.999999999999996\<close>, below 15, \<open>15.1 - 0.1\<close> is 15, and
  \<open>((1000.4 - 700.28) / 1000.4) * 100\<close> is 30.
\<close>

lemma binary64_30: "binary64 30 = Fin 30"
  using binary64_of_int [of 30] by simp

lemma binary64_fifth: "binary64 (2 / 10) = Fin (3602879701896397 / 18014398509481984)"
  by (simp add: binary64_eval)

lemma doubles_subtraction_below:
  "fsub (literal (353 / 10)) (literal (203 / 10)) = Fin (4222124650659839 / 281474976710656)"
  by (simp add: literal_def fsub_def nsub_def binary64_eval)

lemma doubles_subtraction_exact: "fsub (literal (151 / 10)) (literal (1 / 10)) = Fin 15"
  by (simp add: literal_def fsub_def nsub_def binary64_eval)

lemma doubles_savings_rate:
  "fmul (fdiv (fsub (literal (10004 / 10)) (literal (70028 / 100))) (literal (10004 / 10))) (Fin 100) =
   Fin 30"
  by (simp add: literal_def fsub_def fdiv_def fmul_def nsub_def binary64_eval)

subsection \<open>The strategy service\<close>

lemma get_property_allocations:
  "k \<notin> set Object_prototype_names \<Longrightarrow>
   getRiskAdjustedAllocation r k =
     Found (if k = ''low'' then \<lparr>equity = (if r = ''us'' then 40 else 45),
                                  bonds = (if r = ''us'' then 50 else 45), alternatives = 10\<rparr>
            else if k = ''high'' then \<lparr>equity = (if r = ''us'' then 80 else 75),
                                  bonds = (if r = ''us'' then 10 else 15), alternatives = 10\<rparr>
            else \<lparr>equity = (if r = ''us'' then 60 else 55),
                  bonds = (if r = ''us'' then 30 else 35), alternatives = 10\<rparr>)"
  by (simp add: getRiskAdjustedAllocation_def get_property_def allocations_def)

text \<open>
  The rows of the two tables. For every planning region, each of the three rows of the
  base-strategy matrix (low, medium, high) has bond, equity and alternative percentages
  that sum to 100 with an alternative share of 10; and for every risk-tolerance string
  that is not the name of a member inherited from \<open>Object.prototype\<close>,
  getRiskAdjustedAllocation returns a row (the medium row for an unrecognized string)
  whose equity, bonds and alternatives sum to 100 with an alternatives share of 10.
\<close>

lemma allocation_tables_sum_to_100:
  "(\<forall>k \<in> {''low'', ''medium'', ''high''}.
      \<exists>b. get_property (baseStrategies planningRegion) k = Found b \<and>
          bondAllocation b + equityAllocation b + altAllocation b = 100 \<and>
          altAllocation b = 10) \<and>
   (riskTolerance \<notin> set Object_prototype_names \<longrightarrow>
      (\<exists>a. getRiskAdjustedAllocation planningRegion riskTolerance = Found a \<and>
           equity a + bonds a + alternatives a = 100 \<and> alternatives a = 10) \<and>
      (riskTolerance \<notin> {''low'', ''medium'', ''high''} \<longrightarrow>
         getRiskAdjustedAllocation planningRegion riskTolerance =
         getRiskAdjustedAllocation planningRegion ''medium''))"
proof -
  have base: "\<forall>k \<in> {''low'', ''medium'', ''high''}.
      \<exists>b. get_property (baseStrategies planningRegion) k = Found b \<and>
          bondAllocation b + equityAllocation b + altAllocation b = 100 \<and>
          altAllocation b = 10"
    by (simp add: get_property_def baseStrategies_def)
  have med: "''medium'' \<notin> set Object_prototype_names"
    by (simp add: Object_prototype_names_def)
  have alone: "riskTolerance \<notin> set Object_prototype_names \<Longrightarrow>
      (\<exists>a. getRiskAdjustedAllocation planningRegion riskTolerance = Found a \<and>
           equity a + bonds a + alternatives a = 100 \<and> alternatives a = 10) \<and>
      (riskTolerance \<notin> {''low'', ''medium'', ''high''} \<longrightarrow>
         getRiskAdjustedAllocation planningRegion riskTolerance =
         getRiskAdjustedAllocation planningRegion ''medium'')"
    by (simp add: get_property_allocations med)
  from base alone show ?thesis by blast
qed

lemma allocation_tables_sum_to_100_example:
  "(\<exists>b. get_property (baseStrategies ''india'') ''low'' = Found b \<and>
        bondAllocation b + equityAllocation b + altAllocation b = 100 \<and> altAllocation b = 10) \<and>
   (\<exists>a. getRiskAdjustedAllocation ''india'' ''aggressive'' = Found a \<and>
        equity a + bonds a + alternatives a = 100 \<and> alternatives a = 10) \<and>
   getRiskAdjustedAllocation ''india'' ''aggressive'' = getRiskAdjustedAllocation ''india'' ''medium''"
proof -
  have own: "''aggressive'' \<notin> set Object_prototype_names"
    by (simp add: Object_prototype_names_def)
  have other: "''aggressive'' \<notin> {''low'', ''medium'', ''high''}"
    by simp
  from allocation_tables_sum_to_100 [of "''india''" "''aggressive''"] own other
  show ?thesis by blast
qed

text \<open>
  C10. An unrecognized risk tolerance is to fall back to the medium row of
  getRiskAdjustedAllocation, whose percentages sum to 100 with an alternatives share of
  10. For the risk-tolerance string \<open>constructor\<close> the service does not do so:
  \<open>allocations['constructor']\<close> is the inherited \<open>Object\<close> function, which is truthy,
  so \<open>|| allocations.medium\<close> is not taken. The result is that function, not the medium
  row \<open>{equity: 60, bonds: 30, alternatives: 10}\<close>, and it has no percentages at all.
\<close>

theorem getRiskAdjustedAllocation_inherited_key:
  "getRiskAdjustedAllocation ''us'' ''constructor'' = Builtin [''constructor''] \<and>
   getRiskAdjustedAllocation ''us'' ''medium'' =
     Found \<lparr>equity = 60, bonds = 30, alternatives = 10\<rparr> \<and>
   getRiskAdjustedAllocation ''us'' ''constructor'' \<noteq> getRiskAdjustedAllocation ''us'' ''medium''"
  by (simp add: getRiskAdjustedAllocation_def get_property_def allocations_def
      Object_prototype_names_def)

lemma liquidationRecommendation_value:
  "liquidationRecommendation_of riskTolerance s =
     Fin (let base = (if riskTolerance = ''high'' then 20
                      else if riskTolerance = ''medium'' then 15 else 10)
          in if concentrationRisk_of s then min (base + 5) 25 else base)"
proof -
  have "binary64 15 = Fin 15" "binary64 20 = Fin 20" "binary64 25 = Fin 25"
    using binary64_of_int [of 15] binary64_of_int [of 20] binary64_of_int [of 25] by simp_all
  then show ?thesis
    by (simp add: liquidationRecommendation_of_def annualSellPercentage_of_def fadd_def Let_def)
qed

lemma concentrationRisk_flag:
  "concentrationRisk_of s \<longleftrightarrow>
     (\<exists>flags. riskFlags s = Some flags \<and> highConcentration flags = Some True)"
  by (auto simp add: concentrationRisk_of_def split: option.splits)

lemma esopValue_of_total:
  "(\<exists>ov. esopOverview s = Some ov \<and> totalValue ov = Some (Fin v) \<and> v \<noteq> 0) \<Longrightarrow>
   esopValue_of s = Fin v"
  by (auto simp add: esopValue_of_def)

lemma esopValue_of_default:
  "esopOverview s = None \<or>
   (\<exists>ov. esopOverview s = Some ov \<and> totalValue ov \<in> {None, Some (Fin 0), Some NaN}) \<Longrightarrow>
   esopValue_of s = Fin 100000"
  by (auto simp add: esopValue_of_def)

lemma generateDetailedEsopStrategy_returns:
  "planningRegion \<in> {''us'', ''india''} \<Longrightarrow>
   \<exists>r. generateDetailedEsopStrategy h planningRegion riskTolerance s goals = Inr r"
  by (auto simp add: generateDetailedEsopStrategy_def Let_def get_property_def taxRates_def)

lemma generateDetailedEsopStrategy_funding:
  assumes "generateDetailedEsopStrategy h planningRegion riskTolerance s goals = Inr r"
  shows "exerciseFundingStrategy r =
     \<lparr>estimatedCost = Math_round (fmul (esopValue_of s) (literal (2 / 10))),
      monthlySavingsTarget =
        Math_round (fdiv (fmul (esopValue_of s) (literal (2 / 10))) (Fin 12)),
      annualSellPercentage = liquidationRecommendation_of riskTolerance s,
      taxRate = (if planningRegion = ''india'' then Fin 10 else Fin 22),
      fundingSources = [''Monthly savings allocation'', ''Sell-to-cover strategy'',
                        ''Short-term liquid investments'']\<rparr>"
proof -
  from assms have "get_property taxRates planningRegion \<noteq> Undefined"
    by (auto simp add: generateDetailedEsopStrategy_def Let_def split: if_splits)
  with assms show ?thesis
    by (auto simp add: generateDetailedEsopStrategy_def Let_def)
qed

lemma funding_of_value:
  assumes "binary64 (2 / 10) = Fin c"
    and "binary64 (v * c) = Fin y"
    and "binary64 (y / 12) = Fin z"
  shows "Math_round (fmul (Fin v) (literal (2 / 10))) = Fin (of_int \<lfloor>y + 1 / 2\<rfloor>)"
    and "Math_round (fdiv (fmul (Fin v) (literal (2 / 10))) (Fin 12)) =
         Fin (of_int \<lfloor>z + 1 / 2\<rfloor>)"
  using assms by (simp_all add: fmul_def fdiv_def literal_def)

text \<open>
  C8 (as the code has it). Whenever generateDetailedEsopStrategy returns (and it does for
  the regions us and india), its annual liquidation percentage is the base of the risk
  tolerance (20 for high, 15 for medium, 10 otherwise, so 10 for low) when the
  concentration-risk flag \<open>riskFlags.highConcentration\<close> is not true, and
  \<open>min (base + 5) 25\<close> when it is. Let \<open>v\<close> be the total ESOP value
  \<open>esopOverview.totalValue\<close> when that is a finite number other than zero, and 100000
  when it is absent, zero or \<open>NaN\<close>. Then estimatedCost is \<open>Math.round(v * 0.2)\<close> and
  monthlySavingsTarget is \<open>Math.round(v * 0.2 / 12)\<close>, the product before its rounding
  to an integer divided by 12. Both are computed in double arithmetic: \<open>c\<close> is the
  double of the literal \<open>0.2\<close>, \<open>y\<close> the double of \<open>v * c\<close> and \<open>z\<close> the double of
  \<open>y / 12\<close>; \<open>Math.round\<close> of a number \<open>a\<close> is the integer \<open>\<lfloor>a + 1/2\<rfloor>\<close>.
\<close>

theorem generateDetailedEsopStrategy_liquidation_and_funding:
  "(planningRegion \<in> {''us'', ''india''} \<longrightarrow>
      (\<exists>r. generateDetailedEsopStrategy h planningRegion riskTolerance s goals = Inr r)) \<and>
   (\<forall>r. generateDetailedEsopStrategy h planningRegion riskTolerance s goals = Inr r \<longrightarrow>
      annualSellPercentage (exerciseFundingStrategy r) =
        Fin (let base = (if riskTolerance = ''high'' then 20
                         else if riskTolerance = ''medium'' then 15 else 10)
             in if (\<exists>flags. riskFlags s = Some flags \<and> highConcentration flags = Some True)
                then min (base + 5) 25 else base) \<and>
      (\<forall>v c y z.
         ((\<exists>ov. esopOverview s = Some ov \<and> totalValue ov = Some (Fin v) \<and> v \<noteq> 0) \<or>
          (v = 100000 \<and>
           (esopOverview s = None \<or>
            (\<exists>ov. esopOverview s = Some ov \<and>
                  totalValue ov \<in> {None, Some (Fin 0), Some NaN})))) \<and>
         binary64 (2 / 10) = Fin c \<and>
         binary64 (v * c) = Fin y \<and>
         binary64 (y / 12) = Fin z \<longrightarrow>
         estimatedCost (exerciseFundingStrategy r) = Fin (of_int \<lfloor>y + 1 / 2\<rfloor>) \<and>
         monthlySavingsTarget (exerciseFundingStrategy r) = Fin (of_int \<lfloor>z + 1 / 2\<rfloor>)))"
proof (intro conjI allI impI)
  assume "planningRegion \<in> {''us'', ''india''}"
  then show "\<exists>r. generateDetailedEsopStrategy h planningRegion riskTolerance s goals = Inr r"
    by (rule generateDetailedEsopStrategy_returns)
next
  fix r
  assume "generateDetailedEsopStrategy h planningRegion riskTolerance s goals = Inr r"
  then show "annualSellPercentage (exerciseFundingStrategy r) =
        Fin (let base = (if riskTolerance = ''high'' then 20
                         else if riskTolerance = ''medium'' then 15 else 10)
             in if (\<exists>flags. riskFlags s = Some flags \<and> highConcentration flags = Some True)
                then min (base + 5) 25 else base)"
    by (simp add: generateDetailedEsopStrategy_funding liquidationRecommendation_value
        concentrationRisk_flag)
next
  fix r v c y z
  assume r: "generateDetailedEsopStrategy h planningRegion riskTolerance s goals = Inr r"
    and v: "((\<exists>ov. esopOverview s = Some ov \<and> totalValue ov = Some (Fin v) \<and> v \<noteq> 0) \<or>
          (v = 100000 \<and>
           (esopOverview s = None \<or>
            (\<exists>ov. esopOverview s = Some ov \<and>
                  totalValue ov \<in> {None, Some (Fin 0), Some NaN})))) \<and>
         binary64 (2 / 10) = Fin c \<and>
         binary64 (v * c) = Fin y \<and>
         binary64 (y / 12) = Fin z"
  from v have used: "esopValue_of s = Fin v"
    using esopValue_of_total [of s v] esopValue_of_default [of s] by blast
  from v have c: "binary64 (2 / 10) = Fin c"
    and y: "binary64 (v * c) = Fin y"
    and z: "binary64 (y / 12) = Fin z"
    by simp_all
  from funding_of_value(1) [OF c y z]
  show "estimatedCost (exerciseFundingStrategy r) = Fin (of_int \<lfloor>y + 1 / 2\<rfloor>)"
    by (simp add: generateDetailedEsopStrategy_funding [OF r] used)
  from funding_of_value(2) [OF c y z]
  show "monthlySavingsTarget (exerciseFundingStrategy r) = Fin (of_int \<lfloor>z + 1 / 2\<rfloor>)"
    by (simp add: generateDetailedEsopStrategy_funding [OF r] used)
qed

lemma doubles_250000:
  "binary64 (250000 * (3602879701896397 / 18014398509481984)) = Fin 50000"
  "binary64 (50000 / 12) = Fin (4581298449066667 / 1099511627776)"
  by (simp_all add: binary64_eval)

theorem generateDetailedEsopStrategy_liquidation_and_funding_witness:
  "\<exists>r. generateDetailedEsopStrategy example_host ''us'' ''low''
         \<lparr>esopOverview = Some \<lparr>totalValue = Some (Fin 250000), totalUnvestedShares = None,
                               totalVestedShares = None, percentOfPortfolio = None\<rparr>,
          riskFlags = Some \<lparr>highConcentration = Some True\<rparr>\<rparr>
         \<lparr>currentAge = None, retirementAge = None, investmentHorizon = None,
          monthlyIncome = None, monthlyExpenses = None\<rparr> = Inr r \<and>
       annualSellPercentage (exerciseFundingStrategy r) = Fin 15 \<and>
       estimatedCost (exerciseFundingStrategy r) = Fin 50000 \<and>
       monthlySavingsTarget (exerciseFundingStrategy r) = Fin 4167"
proof -
  let ?ov = "\<lparr>totalValue = Some (Fin 250000), totalUnvestedShares = None,
              totalVestedShares = None, percentOfPortfolio = None\<rparr>"
  let ?s = "\<lparr>esopOverview = Some ?ov, riskFlags = Some \<lparr>highConcentration = Some True\<rparr>\<rparr>"
  let ?g = "\<lparr>currentAge = None, retirementAge = None, investmentHorizon = None,
          monthlyIncome = None, monthlyExpenses = None\<rparr>"
  let ?c = "3602879701896397 / 18014398509481984 :: real"
  let ?z = "4581298449066667 / 1099511627776 :: real"
  note main = generateDetailedEsopStrategy_liquidation_and_funding
    [where planningRegion = "''us''" and h = example_host and riskTolerance = "''low''"
       and s = ?s and goals = ?g]
  from main obtain r where
    r: "generateDetailedEsopStrategy example_host ''us'' ''low'' ?s ?g = Inr r"
    by auto
  have total: "\<exists>ov. esopOverview ?s = Some ov \<and> totalValue ov = Some (Fin 250000) \<and>
      (250000::real) \<noteq> 0"
    by simp
  have flag: "\<exists>flags. riskFlags ?s = Some flags \<and> highConcentration flags = Some True"
    by simp
  note c = binary64_fifth and y = doubles_250000(1) and z = doubles_250000(2)
  have f1: "\<lfloor>(50000::real) + 1 / 2\<rfloor> = 50000"
    by linarith
  have f2: "\<lfloor>?z + 1 / 2\<rfloor> = 4167"
    by linarith
  from main r have sell:
    "annualSellPercentage (exerciseFundingStrategy r) =
        Fin (let base = (if ''low'' = ''high'' then 20
                         else if ''low'' = ''medium'' then 15 else 10)
             in if (\<exists>flags. riskFlags ?s = Some flags \<and> highConcentration flags = Some True)
                then min (base + 5) 25 else base)"
    by blast
  from main r total c y z have cost:
    "estimatedCost (exerciseFundingStrategy r) = Fin (of_int \<lfloor>(50000::real) + 1 / 2\<rfloor>) \<and>
     monthlySavingsTarget (exerciseFundingStrategy r) = Fin (of_int \<lfloor>?z + 1 / 2\<rfloor>)"
    by blast
  from sell flag have "annualSellPercentage (exerciseFundingStrategy r) = Fin 15"
    by (simp del: riskFlags.simps analyticsSummary.simps)
  with cost f1 f2 r show ?thesis
    by (intro exI [of _ r]) simp
qed

text \<open>
  C8 as stated fails in two places. A total ESOP value of zero is replaced by 100000, so
  the estimated cost is 20000 and not 20% of the total value; and the monthly target is
  computed from the product before its rounding, not from the estimated cost: for a total
  value of 100048 the cost is 20010 and the target is 1667, while the cost divided by 12,
  rounded, is 1668.
\<close>

lemma doubles_100000:
  "binary64 (100000 * (3602879701896397 / 18014398509481984)) = Fin 20000"
  "binary64 (20000 / 12) = Fin (7330077518506667 / 4398046511104)"
  by (simp_all add: binary64_eval)

lemma doubles_100048:
  "binary64 (100048 * (3602879701896397 / 18014398509481984)) =
     Fin (5500196966786663 / 274877906944)"
  "binary64 (5500196966786663 / 274877906944 / 12) = Fin (7333595955715551 / 4398046511104)"
  "binary64 (20010 / 12) = Fin (3335 / 2)"
  by (simp_all add: binary64_eval)

theorem generateDetailedEsopStrategy_funding_counterexample:
  "(\<exists>r. generateDetailedEsopStrategy example_host ''us'' ''low''
          \<lparr>esopOverview = Some \<lparr>totalValue = Some (Fin 0), totalUnvestedShares = None,
                                totalVestedShares = None, percentOfPortfolio = None\<rparr>,
           riskFlags = None\<rparr> no_goals = Inr r \<and>
        estimatedCost (exerciseFundingStrategy r) = Fin 20000) \<and>
   (\<exists>r. generateDetailedEsopStrategy example_host ''us'' ''low''
          \<lparr>esopOverview = Some \<lparr>totalValue = Some (Fin 100048), totalUnvestedShares = None,
                                totalVestedShares = None, percentOfPortfolio = None\<rparr>,
           riskFlags = None\<rparr> no_goals = Inr r \<and>
        estimatedCost (exerciseFundingStrategy r) = Fin 20010 \<and>
        monthlySavingsTarget (exerciseFundingStrategy r) = Fin 1667 \<and>
        Math_round (fdiv (estimatedCost (exerciseFundingStrategy r)) (Fin 12)) = Fin 1668)"
proof -
  let ?zero = "\<lparr>esopOverview = Some \<lparr>totalValue = Some (Fin 0), totalUnvestedShares = None,
                                totalVestedShares = None, percentOfPortfolio = None\<rparr>,
           riskFlags = None\<rparr>"
  let ?s = "\<lparr>esopOverview = Some \<lparr>totalValue = Some (Fin 100048), totalUnvestedShares = None,
                                totalVestedShares = None, percentOfPortfolio = None\<rparr>,
           riskFlags = None\<rparr>"
  have us: "''us'' \<in> {''us'', ''india''}"
    by simp
  have f1: "\<lfloor>(20000::real) + 1 / 2\<rfloor> = 20000"
    and f2: "\<lfloor>(5500196966786663 / 274877906944 :: real) + 1 / 2\<rfloor> = 20010"
    and f3: "\<lfloor>(7333595955715551 / 4398046511104 :: real) + 1 / 2\<rfloor> = 1667"
    and f4: "\<lfloor>(3335 / 2 :: real) + 1 / 2\<rfloor> = 1668"
    by linarith+
  from generateDetailedEsopStrategy_returns [OF us] obtain r0 where
    r0: "generateDetailedEsopStrategy example_host ''us'' ''low'' ?zero no_goals = Inr r0"
    by blast
  from funding_of_value(1) [OF binary64_fifth doubles_100000] f1
  have "estimatedCost (exerciseFundingStrategy r0) = Fin 20000"
    by (simp add: generateDetailedEsopStrategy_funding [OF r0] esopValue_of_def)
  with r0 have zero: "\<exists>r. generateDetailedEsopStrategy example_host ''us'' ''low'' ?zero no_goals = Inr r \<and>
      estimatedCost (exerciseFundingStrategy r) = Fin 20000"
    by blast
  from generateDetailedEsopStrategy_returns [OF us] obtain r1 where
    r1: "generateDetailedEsopStrategy example_host ''us'' ''low'' ?s no_goals = Inr r1"
    by blast
  from funding_of_value [OF binary64_fifth doubles_100048(1) doubles_100048(2)] f2 f3
  have funding: "estimatedCost (exerciseFundingStrategy r1) = Fin 20010"
    "monthlySavingsTarget (exerciseFundingStrategy r1) = Fin 1667"
    by (simp_all add: generateDetailedEsopStrategy_funding [OF r1] esopValue_of_def)
  from doubles_100048(3) f4
  have "Math_round (fdiv (Fin 20010) (Fin 12)) = Fin 1668"
    by (simp add: fdiv_def)
  with funding have "estimatedCost (exerciseFundingStrategy r1) = Fin 20010 \<and>
      monthlySavingsTarget (exerciseFundingStrategy r1) = Fin 1667 \<and>
      Math_round (fdiv (estimatedCost (exerciseFundingStrategy r1)) (Fin 12)) = Fin 1668"
    by simp
  with r1 have other: "\<exists>r. generateDetailedEsopStrategy example_host ''us'' ''low'' ?s no_goals = Inr r \<and>
      estimatedCost (exerciseFundingStrategy r) = Fin 20010 \<and>
      monthlySavingsTarget (exerciseFundingStrategy r) = Fin 1667 \<and>
      Math_round (fdiv (estimatedCost (exerciseFundingStrategy r)) (Fin 12)) = Fin 1668"
    by blast
  from zero other show ?thesis ..
qed

lemma generateDetailedStrategies_known:
  assumes "planningRegion \<in> {''us'', ''india''}" and "riskTolerance \<in> {''low'', ''medium'', ''high''}"
  shows "\<exists>strategyBase etfs.
     get_property (baseStrategies planningRegion) riskTolerance = Found strategyBase \<and>
     get_property etfExamples planningRegion = Found etfs"
  using assms by (auto simp add: get_property_def baseStrategies_def etfExamples_def)

text \<open>
  C7 (as the code has it). For the regions us and india, the risk tolerances low, medium
  and high, and every goal profile, generateDetailedStrategies returns exactly four
  strategies in the order core, sector, ESOP diversification, fourth. With the defaults
  35, 60, 100000 and 50000 for a missing (or zero) age, retirement age, monthly income
  and monthly expenses, the fourth is the retirement-income strategy iff the age is
  above 45 or the double that \<open>retirementAge - age\<close> computes is below 15; else the
  opportunistic-growth strategy iff the savings rate, the double that
  \<open>((monthlyIncome - monthlyExpenses) / monthlyIncome) * 100\<close> computes (30 when the
  income is not above 0), is above 30; else the financial-safety strategy. For age 30
  and retirement age 60 the fourth is not the retirement-income strategy.
\<close>

theorem generateDetailedStrategies_four_in_order:
  assumes "planningRegion \<in> {''us'', ''india''}" and "riskTolerance \<in> {''low'', ''medium'', ''high''}"
  shows "\<exists>core sector esop fourth.
     generateDetailedStrategies h planningRegion riskTolerance goals = Inr [core, sector, esop, fourth] \<and>
     title core = ''Core Investment Strategy'' \<and>
     title sector = ''Sector Allocation Strategy'' \<and>
     title esop = ''ESOP Diversification Strategy'' \<and>
     title fourth =
       (let age = or_default (currentAge goals) (Fin 35);
            retirement = or_default (retirementAge goals) (Fin 60);
            income = or_default (monthlyIncome goals) (Fin 100000);
            expenses = or_default (monthlyExpenses goals) (Fin 50000);
            rate = (if ngt income (Fin 0)
                    then rounded (nmul (rounded (ndiv (rounded (nsub income expenses)) income))
                                       (Fin 100))
                    else Fin 30)
        in if ngt age (Fin 45) \<or> nlt (rounded (nsub retirement age)) (Fin 15)
           then ''Retirement Income Strategy''
           else if ngt rate (Fin 30) then ''Opportunistic Growth Strategy''
           else ''Financial Safety Strategy'') \<and>
     (currentAge goals = Some (Fin 30) \<and> retirementAge goals = Some (Fin 60) \<longrightarrow>
        title fourth \<noteq> ''Retirement Income Strategy'')"
proof -
  from generateDetailedStrategies_known [OF assms] obtain strategyBase etfs where
    sb: "get_property (baseStrategies planningRegion) riskTolerance = Found strategyBase" and
    etfs: "get_property etfExamples planningRegion = Found etfs"
    by blast
  let ?fourth = "if hasRetirementFocus_of goals
      then retirement_income_strategy h planningRegion riskTolerance goals (Found strategyBase) etfs
      else if ngt (savingsRate_of goals) (Fin 30)
      then opportunistic_growth_strategy h planningRegion riskTolerance goals etfs
      else financial_safety_strategy h planningRegion riskTolerance goals etfs"
  let ?title = "let age = or_default (currentAge goals) (Fin 35);
            retirement = or_default (retirementAge goals) (Fin 60);
            income = or_default (monthlyIncome goals) (Fin 100000);
            expenses = or_default (monthlyExpenses goals) (Fin 50000);
            rate = (if ngt income (Fin 0)
                    then rounded (nmul (rounded (ndiv (rounded (nsub income expenses)) income))
                                       (Fin 100))
                    else Fin 30)
        in if ngt age (Fin 45) \<or> nlt (rounded (nsub retirement age)) (Fin 15)
           then ''Retirement Income Strategy''
           else if ngt rate (Fin 30) then ''Opportunistic Growth Strategy''
           else ''Financial Safety Strategy''"
  have run: "generateDetailedStrategies h planningRegion riskTolerance goals =
      Inr [core_strategy h planningRegion riskTolerance goals (Found strategyBase) etfs,
           sector_strategy h planningRegion riskTolerance goals etfs,
           esop_diversification_strategy riskTolerance etfs, ?fourth]"
    by (simp add: generateDetailedStrategies_def Let_def sb etfs)
  have t4: "title ?fourth = ?title"
    by (simp add: hasRetirementFocus_of_def yearsToRetirement_of_def savingsRate_of_def
        age_of_def retirementAge_of_def monthlyIncome_of_def monthlyExpenses_of_def
        fsub_def fdiv_def fmul_def Let_def
        retirement_income_strategy_def opportunistic_growth_strategy_def
        financial_safety_strategy_def)
  have young: "currentAge goals = Some (Fin 30) \<and> retirementAge goals = Some (Fin 60) \<longrightarrow>
      \<not> hasRetirementFocus_of goals"
    by (simp add: hasRetirementFocus_of_def yearsToRetirement_of_def age_of_def
        retirementAge_of_def ngt_def nsub_def fsub_def binary64_30)
  have t1: "title (core_strategy h planningRegion riskTolerance goals (Found strategyBase) etfs) =
      ''Core Investment Strategy''"
    by (simp add: core_strategy_def)
  have t2: "title (sector_strategy h planningRegion riskTolerance goals etfs) =
      ''Sector Allocation Strategy''"
    by (simp add: sector_strategy_def)
  have t3: "title (esop_diversification_strategy riskTolerance etfs) = ''ESOP Diversification Strategy''"
    by (simp add: esop_diversification_strategy_def)
  from young have t5: "currentAge goals = Some (Fin 30) \<and> retirementAge goals = Some (Fin 60) \<longrightarrow>
      title ?fourth \<noteq> ''Retirement Income Strategy''"
    by (simp add: opportunistic_growth_strategy_def financial_safety_strategy_def)
  from run t1 t2 t3 t4 t5 show ?thesis by blast
qed

text \<open>
  Three goal profiles for the region us and the risk tolerance high. Age 30 and
  retirement age 60, with the default income and expenses (a savings rate of 50): the
  opportunistic-growth strategy. Age \<open>20.3\<close> and retirement age \<open>35.3\<close>, whose
  difference in double arithmetic is below 15: the retirement-income strategy. Age 30,
  retirement age 60, income \<open>1000.4\<close> and expenses \<open>700.28\<close>, a savings rate of exactly
  30 in double arithmetic: the financial-safety strategy.
\<close>

theorem generateDetailedStrategies_four_in_order_witness:
  "(\<exists>core sector esop fourth.
     generateDetailedStrategies example_host ''us'' ''high''
       (no_goals\<lparr>currentAge := Some (Fin 30), retirementAge := Some (Fin 60)\<rparr>) =
       Inr [core, sector, esop, fourth] \<and>
     title core = ''Core Investment Strategy'' \<and>
     title sector = ''Sector Allocation Strategy'' \<and>
     title esop = ''ESOP Diversification Strategy'' \<and>
     title fourth = ''Opportunistic Growth Strategy'') \<and>
   (\<exists>core sector esop fourth.
     generateDetailedStrategies example_host ''us'' ''high''
       (no_goals\<lparr>currentAge := Some (literal (203 / 10)),
                  retirementAge := Some (literal (353 / 10))\<rparr>) =
       Inr [core, sector, esop, fourth] \<and>
     title fourth = ''Retirement Income Strategy'') \<and>
   (\<exists>core sector esop fourth.
     generateDetailedStrategies example_host ''us'' ''high''
       (no_goals\<lparr>currentAge := Some (Fin 30), retirementAge := Some (Fin 60),
                  monthlyIncome := Some (literal (10004 / 10)),
                  monthlyExpenses := Some (literal (70028 / 100))\<rparr>) =
       Inr [core, sector, esop, fourth] \<and>
     title fourth = ''Financial Safety Strategy'')"
proof -
  let ?g1 = "no_goals\<lparr>currentAge := Some (Fin 30), retirementAge := Some (Fin 60)\<rparr>"
  let ?g2 = "no_goals\<lparr>currentAge := Some (literal (203 / 10)),
                  retirementAge := Some (literal (353 / 10))\<rparr>"
  let ?g3 = "no_goals\<lparr>currentAge := Some (Fin 30), retirementAge := Some (Fin 60),
                  monthlyIncome := Some (literal (10004 / 10)),
                  monthlyExpenses := Some (literal (70028 / 100))\<rparr>"
  have r: "''us'' \<in> {''us'', ''india''}" and k: "''high'' \<in> {''low'', ''medium'', ''high''}"
    by simp_all
  note main = generateDetailedStrategies_four_in_order [OF r k, where h = example_host]
  have title1: "(let age = or_default (currentAge ?g1) (Fin 35);
            retirement = or_default (retirementAge ?g1) (Fin 60);
            income = or_default (monthlyIncome ?g1) (Fin 100000);
            expenses = or_default (monthlyExpenses ?g1) (Fin 50000);
            rate = (if ngt income (Fin 0)
                    then rounded (nmul (rounded (ndiv (rounded (nsub income expenses)) income))
                                       (Fin 100))
                    else Fin 30)
        in if ngt age (Fin 45) \<or> nlt (rounded (nsub retirement age)) (Fin 15)
           then ''Retirement Income Strategy''
           else if ngt rate (Fin 30) then ''Opportunistic Growth Strategy''
           else ''Financial Safety Strategy'') = ''Opportunistic Growth Strategy''"
    by (simp add: ngt_def nsub_def no_goals_def binary64_eval)
  have title2: "(let age = or_default (currentAge ?g2) (Fin 35);
            retirement = or_default (retirementAge ?g2) (Fin 60);
            income = or_default (monthlyIncome ?g2) (Fin 100000);
            expenses = or_default (monthlyExpenses ?g2) (Fin 50000);
            rate = (if ngt income (Fin 0)
                    then rounded (nmul (rounded (ndiv (rounded (nsub income expenses)) income))
                                       (Fin 100))
                    else Fin 30)
        in if ngt age (Fin 45) \<or> nlt (rounded (nsub retirement age)) (Fin 15)
           then ''Retirement Income Strategy''
           else if ngt rate (Fin 30) then ''Opportunistic Growth Strategy''
           else ''Financial Safety Strategy'') = ''Retirement Income Strategy''"
    by (simp add: ngt_def nsub_def no_goals_def literal_def binary64_eval)
  have title3: "(let age = or_default (currentAge ?g3) (Fin 35);
            retirement = or_default (retirementAge ?g3) (Fin 60);
            income = or_default (monthlyIncome ?g3) (Fin 100000);
            expenses = or_default (monthlyExpenses ?g3) (Fin 50000);
            rate = (if ngt income (Fin 0)
                    then rounded (nmul (rounded (ndiv (rounded (nsub income expenses)) income))
                                       (Fin 100))
                    else Fin 30)
        in if ngt age (Fin 45) \<or> nlt (rounded (nsub retirement age)) (Fin 15)
           then ''Retirement Income Strategy''
           else if ngt rate (Fin 30) then ''Opportunistic Growth Strategy''
           else ''Financial Safety Strategy'') = ''Financial Safety Strategy''"
    by (simp add: ngt_def nsub_def no_goals_def literal_def binary64_eval)
  from main [where goals = ?g1]
  have first: "\<exists>core sector esop fourth.
     generateDetailedStrategies example_host ''us'' ''high'' ?g1 = Inr [core, sector, esop, fourth] \<and>
     title core = ''Core Investment Strategy'' \<and>
     title sector = ''Sector Allocation Strategy'' \<and>
     title esop = ''ESOP Diversification Strategy'' \<and>
     title fourth = ''Opportunistic Growth Strategy''"
    unfolding title1 by blast
  from main [where goals = ?g2]
  have second: "\<exists>core sector esop fourth.
     generateDetailedStrategies example_host ''us'' ''high'' ?g2 = Inr [core, sector, esop, fourth] \<and>
     title fourth = ''Retirement Income Strategy''"
    unfolding title2 by blast
  from main [where goals = ?g3]
  have third: "\<exists>core sector esop fourth.
     generateDetailedStrategies example_host ''us'' ''high'' ?g3 = Inr [core, sector, esop, fourth] \<and>
     title fourth = ''Financial Safety Strategy''"
    unfolding title3 by blast
  from first second third show ?thesis by (intro conjI)
qed

text \<open>
  C7 as stated ("for every input") fails outside the documented regions and risk
  tolerances: for a region without funds the service raises a TypeError and returns
  no strategies.
\<close>

theorem generateDetailedStrategies_unknown_region_counterexample:
  "generateDetailedStrategies example_host ''uk'' ''low'' no_goals = Inl TypeError \<and>
   generateDetailedStrategies example_host ''us'' ''extreme'' no_goals = Inl TypeError"
  by (simp add: generateDetailedStrategies_def get_property_def etfExamples_def baseStrategies_def
      Object_prototype_names_def)

subsection \<open>The simulation\<close>
















lemma toFixed2_tenths:
  "toFixed2_value (nmul (ndiv (Fin (real k)) (Fin (real scenarios))) (Fin 100)) = Fin (real k / 10)"
proof -
  have a: "nmul (ndiv (Fin (real k)) (Fin (real scenarios))) (Fin 100) = Fin (real k / 10)"
    by (simp add: scenarios_def)
  have ab: "\<bar>real k / 10\<bar> * 100 + 1 / 2 = real k * 10 + 1 / 2"
    by simp
  have fl: "\<lfloor>real k * 10 + 1 / 2\<rfloor> = int k * 10"
    by linarith
  have sg: "sgn (real k / 10) * real_of_int (int k * 10) / 100 = real k / 10"
    by (cases "k = 0") (simp_all add: sgn_if)
  show ?thesis
    unfolding a toFixed2_value.simps ab fl sg by simp
qed



lemma runSimulation_successProbability:
  "successProbability (fst (runSimulation rnd n riskTolerance T init goal)) =
     Fin (real (fst (scenario_loop rnd (profile_of riskTolerance) T init goal n 0 0)) / 10)"
proof -
  obtain k n' where run: "scenario_loop rnd (profile_of riskTolerance) T init goal n 0 0 = (k, n')"
    by (cases "scenario_loop rnd (profile_of riskTolerance) T init goal n 0 0")
  have "successProbability (fst (runSimulation rnd n riskTolerance T init goal)) =
      toFixed2_value (nmul (ndiv (Fin (real k)) (Fin (real scenarios))) (Fin 100))"
    unfolding runSimulation_def run by simp
  then show ?thesis
    unfolding toFixed2_tenths run by simp
qed


lemma nge_zero: "0 \<le> c \<Longrightarrow> nge (Fin c) (Fin 0)"
  by auto



lemma profile_of_low: "profile_of ''low'' = (Some (Fin (6 / 100)), Some (Fin (8 / 100)))"
  by (simp add: profile_of_def get_property_def riskProfiles_def)

lemma profile_of_medium: "profile_of ''medium'' = (Some (Fin (9 / 100)), Some (Fin (15 / 100)))"
  by (simp add: profile_of_def get_property_def riskProfiles_def)

lemma profile_of_high: "profile_of ''high'' = (Some (Fin (12 / 100)), Some (Fin (22 / 100)))"
  by (simp add: profile_of_def get_property_def riskProfiles_def)



lemma scenario_loop_none_succeed_invariant:
  "I n \<Longrightarrow>
   \<forall>m. I m \<longrightarrow> \<not> nge (fst (year_loop rnd p T m init 0)) goal \<and> I (snd (year_loop rnd p T m init 0)) \<Longrightarrow>
   fst (scenario_loop rnd p T init goal n s i) = s"
proof (induction rnd p T init goal n s i rule: scenario_loop.induct)
  case (1 rnd p horizon initialInvestment goalAmount n successCount i)
  show ?case
  proof (cases "i < scenarios")
    case True
    obtain c n' where y: "year_loop rnd p horizon n initialInvestment 0 = (c, n')"
      by (cases "year_loop rnd p horizon n initialInvestment 0")
    from "1.prems" y have fails: "\<not> nge c goalAmount" and inv: "I n'"
      by (metis fst_conv, metis snd_conv)
    from "1.IH" [OF True y [symmetric] inv "1.prems"(2)] fails True show ?thesis
      by (subst scenario_loop.simps) (simp add: y)
  next
    case False
    then show ?thesis
      by (subst scenario_loop.simps) simp
  qed
qed

lemma box_muller_minus_ten: "box_muller (exp (- 50)) (1 / 2) = Fin (- 10)"
proof -
  have "sqrt 100 = 10"
    by (rule real_sqrt_unique) simp_all
  then show ?thesis
    by (simp add: box_muller_def)
qed

text \<open>
  The condition on the returns is needed as well: with the medium parameters, the
  uniform draws \<open>exp (-50)\<close> and \<open>1/2\<close> give the normal draw \<open>-10\<close> and the annual
  return \<open>0.09 - 10 * 0.15 = -1.41\<close>; after one year the investment 1 stands at
  \<open>-0.41\<close>, below the goal 0, in every scenario.
\<close>

lemma runSimulation_return_below_minus_one:
  "successProbability
     (fst (runSimulation (\<lambda>k. if even k then exp (- 50) else 1 / 2) 0 ''medium'' 1 (Fin 1) (Fin 0))) =
   Fin 0"
proof -
  let ?rnd = "\<lambda>k::nat. if even k then exp (- 50) else (1 / 2 :: real)"
  have year: "year_loop ?rnd (profile_of ''medium'') 1 m (Fin 1) 0 = (Fin (- 41 / 100), m + 2)"
    if "even m" for m
  proof -
    from that have "annualReturn (profile_of ''medium'') (?rnd m) (?rnd (m + 1)) = Fin (- 141 / 100)"
      by (simp add: annualReturn_def profile_of_medium box_muller_minus_ten)
    then have "year_loop ?rnd (profile_of ''medium'') 1 m (Fin 1) 0 =
        year_loop ?rnd (profile_of ''medium'') 1 (m + 2) (Fin (- 41 / 100)) (Suc 0)"
      by (subst year_loop.simps) simp
    also have "\<dots> = (Fin (- 41 / 100), m + 2)"
      by (subst year_loop.simps) simp
    finally show ?thesis .
  qed
  have "fst (scenario_loop ?rnd (profile_of ''medium'') 1 (Fin 1) (Fin 0) 0 0 0) = 0"
    by (rule scenario_loop_none_succeed_invariant [where I = even]) (simp_all add: year)
  then show ?thesis
    by (simp add: runSimulation_successProbability)
qed

lemma profile_of_unrecognized:
  "riskTolerance \<notin> {''low'', ''medium'', ''high''} \<Longrightarrow>
   riskTolerance \<notin> set Object_prototype_names \<Longrightarrow>
   profile_of riskTolerance = profile_of ''medium''"
  by (simp add: profile_of_def get_property_def riskProfiles_def)

lemma annualReturn_finite:
  assumes "0 < u1" and "u1 \<le> 1"
  shows "annualReturn (Some (Fin m), Some (Fin s)) u1 u2 =
     Fin (m + sqrt (- 2 * ln u1) * cos (2 * pi * u2) * s)"
proof -
  from assms have "ln u1 \<le> 0" by simp
  then have "\<not> - 2 * ln u1 < 0" by simp
  with assms show ?thesis
    by (simp add: annualReturn_def box_muller_def)
qed

text \<open>
  The parameters of the simulation. The mean and the standard deviation that
  runSimulation uses are exactly (0.06, 0.08) for low, (0.09, 0.15) for medium and
  (0.12, 0.22) for high; a string that is none of the three and not the name of a member
  inherited from \<open>Object.prototype\<close> gets the medium parameters, and the same success
  probability as medium from the same random draws; each annual return is the mean plus
  the standard deviation times the Box-Muller transform
  \<open>sqrt (-2 ln u1) * cos (2 pi u2)\<close> of two uniform draws; and the standard deviation
  does not decrease from low to medium to high.
\<close>

lemma runSimulation_risk_parameters:
  "profile_of ''low'' = (Some (Fin (6 / 100)), Some (Fin (8 / 100))) \<and>
   profile_of ''medium'' = (Some (Fin (9 / 100)), Some (Fin (15 / 100))) \<and>
   profile_of ''high'' = (Some (Fin (12 / 100)), Some (Fin (22 / 100))) \<and>
   (riskTolerance \<notin> {''low'', ''medium'', ''high''} \<and>
    riskTolerance \<notin> set Object_prototype_names \<longrightarrow>
      profile_of riskTolerance = profile_of ''medium'' \<and>
      successProbability (fst (runSimulation rnd n riskTolerance T init goal)) =
      successProbability (fst (runSimulation rnd n ''medium'' T init goal))) \<and>
   (0 < u1 \<and> u1 \<le> 1 \<longrightarrow>
      annualReturn (Some (Fin m), Some (Fin s)) u1 u2 =
        Fin (m + sqrt (- 2 * ln u1) * cos (2 * pi * u2) * s)) \<and>
   (\<forall>l md hi. snd (profile_of ''low'') = Some (Fin l) \<and> snd (profile_of ''medium'') = Some (Fin md) \<and>
       snd (profile_of ''high'') = Some (Fin hi) \<longrightarrow> l \<le> md \<and> md \<le> hi)"
proof -
  have fallback: "riskTolerance \<notin> {''low'', ''medium'', ''high''} \<and>
    riskTolerance \<notin> set Object_prototype_names \<longrightarrow>
      profile_of riskTolerance = profile_of ''medium'' \<and>
      successProbability (fst (runSimulation rnd n riskTolerance T init goal)) =
      successProbability (fst (runSimulation rnd n ''medium'' T init goal))"
    by (simp add: profile_of_unrecognized runSimulation_successProbability)
  have draw: "0 < u1 \<and> u1 \<le> 1 \<longrightarrow>
      annualReturn (Some (Fin m), Some (Fin s)) u1 u2 =
        Fin (m + sqrt (- 2 * ln u1) * cos (2 * pi * u2) * s)"
    by (simp add: annualReturn_finite)
  have order: "\<forall>l md hi. snd (profile_of ''low'') = Some (Fin l) \<and> snd (profile_of ''medium'') = Some (Fin md) \<and>
       snd (profile_of ''high'') = Some (Fin hi) \<longrightarrow> l \<le> md \<and> md \<le> hi"
    by (simp add: profile_of_low profile_of_medium profile_of_high)
  from profile_of_low profile_of_medium profile_of_high fallback draw order
  show ?thesis by blast
qed

lemma runSimulation_risk_parameters_example:
  "profile_of ''reckless'' = (Some (Fin (9 / 100)), Some (Fin (15 / 100))) \<and>
   successProbability (fst (runSimulation (\<lambda>k. 1 / 4) 0 ''reckless'' 5 (Fin 1000) (Fin 2000))) =
   successProbability (fst (runSimulation (\<lambda>k. 1 / 4) 0 ''medium'' 5 (Fin 1000) (Fin 2000))) \<and>
   annualReturn (Some (Fin (9 / 100)), Some (Fin (15 / 100))) 1 (1 / 2) = Fin (9 / 100)"
proof -
  have a: "''reckless'' \<notin> {''low'', ''medium'', ''high''} \<and> ''reckless'' \<notin> set Object_prototype_names"
    by (simp add: Object_prototype_names_def)
  have b: "(0::real) < 1 \<and> (1::real) \<le> 1"
    by simp
  from runSimulation_risk_parameters
    [of "''reckless''" "\<lambda>k. 1 / 4" 0 5 "Fin 1000" "Fin 2000" 1 "9 / 100" "15 / 100" "1 / 2"] a b
  show ?thesis by simp
qed















subsection \<open>generateDetailedBenchmarks and the clock\<close>

text \<open>
  generateDetailedBenchmarks reads the clock, for \<open>lastUpdated\<close> only, which is the
  date part of the current time: two calls with the same region agree in every other
  property, and agree entirely when the date is the same.
\<close>

lemma generateDetailedBenchmarks_clock:
  "map_sum id (\<lambda>b. b\<lparr>lastUpdated := d\<rparr>)
     (generateDetailedBenchmarks (h\<lparr>clock_toISOString := c\<rparr>) planningRegion) =
   map_sum id (\<lambda>b. b\<lparr>lastUpdated := d\<rparr>) (generateDetailedBenchmarks h planningRegion)"
  by (simp add: generateDetailedBenchmarks_def Let_def)

lemma generateDetailedBenchmarks_same_day:
  "formattedDate (h\<lparr>clock_toISOString := c\<rparr>) = formattedDate h \<Longrightarrow>
   generateDetailedBenchmarks (h\<lparr>clock_toISOString := c\<rparr>) planningRegion =
   generateDetailedBenchmarks h planningRegion"
  by (simp add: generateDetailedBenchmarks_def Let_def)

lemma generateDetailedBenchmarks_lastUpdated:
  "generateDetailedBenchmarks h planningRegion = Inr b \<Longrightarrow> lastUpdated b = formattedDate h"
  by (auto simp add: generateDetailedBenchmarks_def Let_def split: if_splits)

text \<open>
  Two calls with the same region on different days return different results.
\<close>

lemma generateDetailedBenchmarks_differs_by_day:
  "generateDetailedBenchmarks (example_host\<lparr>clock_toISOString := ''2024-11-15T10:30:00.000Z''\<rparr>) ''us'' \<noteq>
   generateDetailedBenchmarks (example_host\<lparr>clock_toISOString := ''2024-11-16T10:30:00.000Z''\<rparr>) ''us''"
  by (simp add: generateDetailedBenchmarks_def Let_def get_property_def marketData_def formattedDate_def)

subsection \<open>The CSV service\<close>

lemma digits_value_Nil: "digits_value radix [] = 0"
  by (simp add: digits_value_def)

lemma field_missing:
  "\<forall>k \<in> set keys. map_of data k = None \<or> map_of data k = Some [] \<Longrightarrow> field data keys = None"
  unfolding field_def by (induction keys) auto

lemma parse_zero: "parseInt10 ''0'' = Fin 0" "parseFloat ''0'' = Fin 0"
  by (simp_all add: parseInt10_def parseFloat_def parse_decimal_def is_digit_def is_whitespace_def
      digits_value_def digit_value_def scale10_def)

lemma numeric_field_missing:
  assumes "\<forall>k \<in> set keys. map_of data k = None \<or> map_of data k = Some []"
  shows "int_field data keys = Fin 0" and "float_field data keys = Fin 0"
  using field_missing [OF assms] by (simp_all add: int_field_def float_field_def parse_zero)

lemma parseInt10_no_digit:
  "\<not> is_whitespace c \<Longrightarrow> \<not> is_digit c \<Longrightarrow> c \<noteq> CHR ''-'' \<Longrightarrow> c \<noteq> CHR ''+'' \<Longrightarrow>
   parseInt10 (c # cs) = NaN"
  by (simp add: parseInt10_def)

text \<open>
  Every numeric field of the normalised row is 0 when every alias column of it is
  missing or empty.
\<close>

lemma processRow_missing_numeric_fields:
  assumes "\<forall>k \<in> set [''totalGrants'', ''total_grants'', ''grants'', ''vested'', ''unvested'',
      ''exercised'', ''exercisePrice'', ''exercise_price'', ''price''].
      map_of data k = None \<or> map_of data k = Some []"
  shows "totalGrants (processRow dh user data) = Fin 0 \<and> vested (processRow dh user data) = Fin 0 \<and>
     unvested (processRow dh user data) = Fin 0 \<and> exercised (processRow dh user data) = Fin 0 \<and>
     exercisePrice (processRow dh user data) = Fin 0"
proof -
  from assms have
    "int_field data [''totalGrants'', ''total_grants'', ''grants''] = Fin 0"
    "int_field data [''vested''] = Fin 0"
    "int_field data [''unvested''] = Fin 0"
    "int_field data [''exercised''] = Fin 0"
    "float_field data [''exercisePrice'', ''exercise_price'', ''price''] = Fin 0"
    by (simp_all add: numeric_field_missing)
  then show ?thesis
    by (simp add: processRow_def Let_def)
qed

text \<open>
  C1 at a row whose \<open>vested\<close> column holds \<open>abc\<close> and whose \<open>exercisePrice\<close> column holds
  \<open>$12.50\<close>: neither text starts with a number, \<open>parseInt\<close> and \<open>parseFloat\<close> give
  \<open>NaN\<close>, and the fields of the normalised row are \<open>NaN\<close>, not 0. The missing
  \<open>totalGrants\<close> is 0.
\<close>

theorem processRow_non_numeric_gives_NaN:
  "vested (processRow example_date_host ''u1''
      [(''vested'', ''abc''), (''exercisePrice'', ''$12.50'')]) = NaN \<and>
   exercisePrice (processRow example_date_host ''u1''
      [(''vested'', ''abc''), (''exercisePrice'', ''$12.50'')]) = NaN \<and>
   totalGrants (processRow example_date_host ''u1''
      [(''vested'', ''abc''), (''exercisePrice'', ''$12.50'')]) = Fin 0"
proof -
  let ?data = "[(''vested'', ''abc''), (''exercisePrice'', ''$12.50'')]"
  have v: "int_field ?data [''vested''] = NaN"
    by (simp add: int_field_def field_def parseInt10_def is_digit_def is_whitespace_def)
  have p: "float_field ?data [''exercisePrice'', ''exercise_price'', ''price''] = NaN"
    by (simp add: float_field_def field_def parseFloat_def parse_decimal_def is_digit_def
        is_whitespace_def)
  have g: "int_field ?data [''totalGrants'', ''total_grants'', ''grants''] = Fin 0"
    by (simp add: int_field_def field_def parse_zero)
  show ?thesis
    by (simp add: processRow_def Let_def v p g)
qed

lemma stream_loop_rows:
  "stream_loop dh db user results (map Data rows @ events) store =
   stream_loop dh db user (results @ map (processRow dh user) rows) events store"
  by (induction rows arbitrary: results) simp_all

text \<open>
  The failures that reach a handler. When the csv-parser stream emits an error (after
  any number of rows), the promise is rejected with that error as it is, and the store
  is what it was: no operation of the collaborator runs. When the stream ends and the
  count, the deletion or the bulk insert fails, the promise is rejected with a
  DatabaseError that wraps the message, and the store is the one the failed operation
  left (after a failed insert: the one after the deletion).
\<close>

lemma parseAndSaveEsopCSV_handled_failures:
  "parseAndSaveEsopCSV dh db user (map Data rows @ Error err # events) store =
     (Rejected (Stream_error err), store) \<and>
   (countDocuments db user store = Inl msg \<longrightarrow>
      parseAndSaveEsopCSV dh db user (map Data rows @ End # events) store =
        (Rejected (DatabaseError (''Failed to save ESOP data: '' @ msg)), store)) \<and>
   (countDocuments db user store = Inr n \<and> deleteMany db user store = Inl (msg, store1) \<longrightarrow>
      parseAndSaveEsopCSV dh db user (map Data rows @ End # events) store =
        (Rejected (DatabaseError (''Failed to save ESOP data: '' @ msg)), store1)) \<and>
   (countDocuments db user store = Inr n \<and> deleteMany db user store = Inr (k, store1) \<and>
    insertMany db (map (processRow dh user) rows) store1 = Inl (msg, store2) \<longrightarrow>
      parseAndSaveEsopCSV dh db user (map Data rows @ End # events) store =
        (Rejected (DatabaseError (''Failed to save ESOP data: '' @ msg)), store2))"
  by (simp add: parseAndSaveEsopCSV_def stream_loop_rows on_end_def)

lemma parseAndSaveEsopCSV_handled_failures_example:
  "parseAndSaveEsopCSV example_date_host (memory_store True) ''u1''
     [Data [(''ticker'', ''abc'')], Error ''bad row''] [example_holding] =
     (Rejected (Stream_error ''bad row''), [example_holding]) \<and>
   parseAndSaveEsopCSV example_date_host (memory_store True) ''u1''
     [Data [(''ticker'', ''abc'')], End] [example_holding] =
     (Rejected (DatabaseError ''Failed to save ESOP data: connection lost''), [])"
proof -
  let ?rows = "[[(''ticker'', ''abc'')]]"
  note main = parseAndSaveEsopCSV_handled_failures
    [where dh = example_date_host and db = "memory_store True" and user = "''u1''"
       and rows = ?rows and err = "''bad row''" and events = "[]" and store = "[example_holding]"
       and n = 1 and k = 1 and ?store1.0 = "[]" and ?store2.0 = "[]" and msg = "''connection lost''"]
  have count: "countDocuments (memory_store True) ''u1'' [example_holding] = Inr 1"
    by (simp add: memory_store_def example_holding_def)
  have delete: "deleteMany (memory_store True) ''u1'' [example_holding] = Inr (1, [])"
    by (simp add: memory_store_def example_holding_def)
  have insert: "insertMany (memory_store True) (map (processRow example_date_host ''u1'') ?rows) [] =
      Inl (''connection lost'', [])"
    by (simp add: memory_store_def)
  from main count delete insert show ?thesis by simp
qed

text \<open>
  C2. A stream error is to reject the promise, with no mutation of the store. When the
  file cannot be opened or read (for a path that does not exist the file stream emits
  \<open>ENOENT\<close> before any row), the service does not reject: its \<open>error\<close> handler is on the
  csv-parser stream that \<open>pipe\<close> returns, the file stream has none, so the error is
  thrown as an uncaught exception and the promise is never settled, neither rejected
  nor resolved. The store is what it was. The same holds after any number of rows.
\<close>

theorem parseAndSaveEsopCSV_unreadable_file:
  "parseAndSaveEsopCSV example_date_host (memory_store False) ''u1''
     [Read_error ''ENOENT: no such file or directory''] [example_holding] =
     (Uncaught ''ENOENT: no such file or directory'', [example_holding]) \<and>
   parseAndSaveEsopCSV dh db user (map Data rows @ Read_error err # events) store =
     (Uncaught err, store) \<and>
   fst (parseAndSaveEsopCSV dh db user (map Data rows @ Read_error err # events) store) \<noteq>
     Rejected rejection"
  by (simp add: parseAndSaveEsopCSV_def stream_loop_rows)

lemma parseDate_nothing: "parseDate dh None = None" "parseDate dh (Some []) = None"
  by (simp_all add: parseDate_def)

lemma parseDate_native_first:
  "s \<noteq> [] \<Longrightarrow> native_parse dh s = Some t \<Longrightarrow> parseDate dh (Some s) = Some t"
  by (simp add: parseDate_def)

lemma digits_2021: "digits_value 10 ''2021'' = 2021" "digits_value 10 ''01'' = 1"
  "digits_value 10 ''02'' = 2"
  by (simp_all add: digits_value_def digit_value_def)

lemma numbers_2021:
  "string_to_number ''2021'' = Fin 2021" "string_to_number ''01'' = Fin 1"
  "string_to_number ''02'' = Fin 2"
  by (simp_all add: string_to_number_def trim_def is_whitespace_def parse_decimal_def is_digit_def
      digits_2021 digits_value_Nil scale10_def Let_def)

lemma first_of_february_2021:
  "Date3 \<lparr>native_parse = np, LocalTZA = (\<lambda>t. 0)\<rparr> (Fin 2021) (Fin 1) (Fin 1) = Some 1612137600000"
  by (simp add: MakeDay_def ToInteger_def DayFromYear_def days_before_month_def
      InLeapYear_def msPerDay_def TimeClip_def Let_def)

text \<open>
  C3 at the day-month-year string \<open>01-02-2021\<close> (1 February 2021), on a host whose
  native parser accepts it as month-day-year: parseDate returns the native reading,
  2 January 2021 (time value 1609545600000 in UTC), and never reaches its own
  day-month-year branch. That branch, which a host whose parser rejects the string
  does reach, gives 1 February 2021 (time value 1612137600000).
\<close>

theorem parseDate_day_month_year_misread:
  "parseDate example_date_host (Some ''01-02-2021'') = Some 1609545600000 \<and>
   parseDate (example_date_host\<lparr>native_parse := \<lambda>s. None\<rparr>) (Some ''01-02-2021'') =
     Some 1612137600000"
proof -
  have native: "parseDate example_date_host (Some ''01-02-2021'') = Some 1609545600000"
    by (simp add: parseDate_native_first example_date_host_def)
  have slash: "split_on CHR ''/'' ''01-02-2021'' = [''01-02-2021'']"
    by simp
  have dash: "split_on CHR ''-'' ''01-02-2021'' = [''01'', ''02'', ''2021'']"
    by simp
  have own: "parseDate (example_date_host\<lparr>native_parse := \<lambda>s. None\<rparr>) (Some ''01-02-2021'') =
      Some 1612137600000"
    unfolding parseDate_def example_date_host_def
    by (simp add: slash dash numbers_2021 nsub_def first_of_february_2021 Let_def
        del: split_on.simps Date3.simps)
  from native own show ?thesis by (rule conjI)
qed

text \<open>
  The branches of parseDate on a host whose native parser rejects the string: a
  month/day/year string with slashes is read as such, and a string with neither three
  parts between slashes nor between dashes gives \<open>null\<close>.
\<close>

lemma parseDate_month_day_year:
  "parseDate \<lparr>native_parse = (\<lambda>s. None), LocalTZA = (\<lambda>t. 0)\<rparr> (Some ''12/25/2021'') =
     Some 1640390400000"
proof -
  have digits: "digits_value 10 ''12'' = 12" "digits_value 10 ''25'' = 25"
    by (simp_all add: digits_value_def digit_value_def)
  have numbers: "string_to_number ''12'' = Fin 12" "string_to_number ''25'' = Fin 25"
    by (simp_all add: string_to_number_def trim_def is_whitespace_def parse_decimal_def is_digit_def
        digits digits_value_Nil scale10_def Let_def)
  have slash: "split_on CHR ''/'' ''12/25/2021'' = [''12'', ''25'', ''2021'']"
    by simp
  have day: "Date3 \<lparr>native_parse = (\<lambda>s. None), LocalTZA = (\<lambda>t. 0)\<rparr> (Fin 2021) (Fin 11) (Fin 25) =
      Some 1640390400000"
    by (simp add: MakeDay_def ToInteger_def DayFromYear_def days_before_month_def
        InLeapYear_def msPerDay_def TimeClip_def Let_def)
  show ?thesis
    unfolding parseDate_def
    by (simp add: slash numbers numbers_2021 nsub_def day Let_def del: split_on.simps Date3.simps)
qed

lemma parseDate_unparseable:
  "parseDate \<lparr>native_parse = (\<lambda>s. None), LocalTZA = (\<lambda>t. 0)\<rparr> (Some ''soon'') = None"
  by (simp add: parseDate_def)

end
